theory Spec2Isabelle
  imports Complex_Main "HOL-Library.Char_ord" "HOL-Library.List_Lexorder" "HOL-Library.Multiset"
begin

section \<open>Errors and results\<close>

text \<open>
  Every exception the modelled Python code can raise is a value of \<open>error\<close>; a function
  that may raise returns \<open>error + 'a\<close>, with \<open>Inl\<close> for the exception.
\<close>

datatype error =
    ValueError string
  | RuntimeError string
  | KeyError string
  | IndexError
  | TypeError
  | AttributeError
  | UnboundLocalError string
  | OSError string

definition bind_err :: "error + 'a \<Rightarrow> ('a \<Rightarrow> error + 'b) \<Rightarrow> error + 'b" where
  "bind_err r f = (case r of Inl e \<Rightarrow> Inl e | Inr v \<Rightarrow> f v)"

definition is_ValueError :: "error + 'a \<Rightarrow> bool" where
  "is_ValueError r = (case r of Inl (ValueError _) \<Rightarrow> True | _ \<Rightarrow> False)"


section \<open>Bounding boxes: \<open>monai/data/box_utils.py\<close>\<close>

definition CORNER_CORNER_MODE :: "string list" where
  "CORNER_CORNER_MODE = [''xyxy'', ''xyzxyz'']"

definition XXYYZZ_MODE :: "string list" where
  "XXYYZZ_MODE = [''xxyy'', ''xxyyzz'']"

definition CORNER_SIZE_MODE :: "string list" where
  "CORNER_SIZE_MODE = [''xywh'', ''xyzwhd'']"

definition CENTER_SIZE_MODE :: "string list" where
  "CENTER_SIZE_MODE = [''ccwh'', ''cccwhd'']"

definition STANDARD_MODE :: "string list" where
  "STANDARD_MODE = CORNER_CORNER_MODE"

definition SUPPORTED_MODE :: "string list" where
  "SUPPORTED_MODE = CORNER_CORNER_MODE @ XXYYZZ_MODE @ CORNER_SIZE_MODE @ CENTER_SIZE_MODE"

definition TO_REMOVE :: rat where
  "TO_REMOVE = 0"

text \<open>
  A box array is a two-dimensional tensor: \<open>ncols\<close> is \<open>bbox.shape[1]\<close> and \<open>rows\<close>
  holds one list per box. Entries are rationals (exact arithmetic). The array is
  well formed when every row has \<open>ncols\<close> entries.
\<close>

record tensor2d =
  ncols :: nat
  rows :: "rat list list"

definition wf_tensor2d :: "tensor2d \<Rightarrow> bool" where
  "wf_tensor2d b = list_all (\<lambda>r. length r = ncols b) (rows b)"

text \<open>
  Modelled from the spec: \<open>look_up_option\<close> of \<open>monai.utils.module\<close> is not among the
  sources; the specification describes the validation as raising on unsupported modes,
  so the option is returned when it is one of the supported values and a
  \<open>ValueError\<close> is raised otherwise.
\<close>

definition look_up_option :: "'a \<Rightarrow> 'a list \<Rightarrow> error + 'a" where
  "look_up_option opt supported =
     (if opt \<in> set supported then Inr opt else Inl (ValueError ''Unsupported option''))"

definition get_dimension :: "tensor2d option \<Rightarrow> nat list option \<Rightarrow> string option \<Rightarrow> error + nat" where
  "get_dimension bbox image_size mode =
     (let s1 = (case image_size of None \<Rightarrow> [] | Some sz \<Rightarrow> [length sz]);
          s2 = (case mode of None \<Rightarrow> [] | Some m \<Rightarrow> [length m div 2]);
          s3 = (case bbox of None \<Rightarrow> [] | Some b \<Rightarrow> [ncols b div 2]);
          spatial_dims_list = remdups (s1 @ s2 @ s3)
      in case spatial_dims_list of
           [] \<Rightarrow> Inl (ValueError ''At least one of bbox, image_size, and mode needs to be non-empty.'')
         | [d] \<Rightarrow> look_up_option d [2, 3]
         | _ \<Rightarrow> Inl (ValueError ''The dimension of bbox, image_size, mode should match with each other.''))"

definition get_standard_mode :: "nat \<Rightarrow> error + string" where
  "get_standard_mode spatial_dims =
     (if spatial_dims = 2 then Inr (STANDARD_MODE ! 0)
      else if spatial_dims = 3 then Inr (STANDARD_MODE ! 1)
      else Inl (ValueError ''Images should have 2 or 3 dimensions''))"

text \<open>\<open>bbox[:, j]\<close>: the column \<open>j\<close>, an \<open>IndexError\<close> when the array has no such column.\<close>

definition col :: "tensor2d \<Rightarrow> nat \<Rightarrow> error + rat list" where
  "col b j = (if j < ncols b then Inr (map (\<lambda>r. r ! j) (rows b)) else Inl IndexError)"

text \<open>Elementwise comparison of two columns and elementwise \<open>|\<close> of two boolean columns.\<close>

definition lt_cols :: "error + rat list \<Rightarrow> error + rat list \<Rightarrow> error + bool list" where
  "lt_cols x y = bind_err x (\<lambda>xs. bind_err y (\<lambda>ys. Inr (map2 (\<lambda>a b. a < b) xs ys)))"

definition lt_zero :: "error + rat list \<Rightarrow> error + bool list" where
  "lt_zero x = bind_err x (\<lambda>xs. Inr (map (\<lambda>a. a < 0) xs))"

definition or_cols :: "error + bool list \<Rightarrow> error + bool list \<Rightarrow> error + bool list" where
  "or_cols x y = bind_err x (\<lambda>xs. bind_err y (\<lambda>ys. Inr (map2 (\<lambda>a b. a \<or> b) xs ys)))"

text \<open>The three \<open>for axis in range(1, spatial_dims)\<close> loops of \<open>check_box_mode\<close>.\<close>

fun size_error_loop :: "tensor2d \<Rightarrow> nat \<Rightarrow> nat list \<Rightarrow> error + bool list \<Rightarrow> error + bool list" where
  "size_error_loop b spatial_dims [] box_error = box_error"
| "size_error_loop b spatial_dims (axis # axes) box_error =
     size_error_loop b spatial_dims axes
       (or_cols box_error (lt_zero (col b (spatial_dims + axis))))"

fun xxyy_error_loop :: "tensor2d \<Rightarrow> nat list \<Rightarrow> error + bool list \<Rightarrow> error + bool list" where
  "xxyy_error_loop b [] box_error = box_error"
| "xxyy_error_loop b (axis # axes) box_error =
     xxyy_error_loop b axes
       (or_cols box_error (lt_cols (col b (2 * axis + 1)) (col b (2 * axis))))"

fun corner_error_loop :: "tensor2d \<Rightarrow> nat \<Rightarrow> nat list \<Rightarrow> error + bool list \<Rightarrow> error + bool list" where
  "corner_error_loop b spatial_dims [] box_error = box_error"
| "corner_error_loop b spatial_dims (axis # axes) box_error =
     corner_error_loop b spatial_dims axes
       (or_cols box_error (lt_cols (col b (spatial_dims + axis)) (col b axis)))"

definition mode_or_standard :: "tensor2d \<Rightarrow> string option \<Rightarrow> error + string" where
  "mode_or_standard bbox mode =
     (case mode of None \<Rightarrow> get_standard_mode (ncols bbox div 2) | Some m \<Rightarrow> Inr m)"

definition check_box_mode :: "tensor2d \<Rightarrow> string option \<Rightarrow> error + bool" where
  "check_box_mode bbox mode =
     bind_err (mode_or_standard bbox mode) (\<lambda>mode0.
     bind_err (look_up_option mode0 SUPPORTED_MODE) (\<lambda>mode1.
     bind_err (get_dimension (Some bbox) None (Some mode1)) (\<lambda>spatial_dims.
     bind_err
       (if mode1 \<in> set [''ccwh'', ''cccwhd'', ''xywh'', ''xyzwhd''] then
          size_error_loop bbox spatial_dims [1..<spatial_dims] (lt_zero (col bbox spatial_dims))
        else if mode1 \<in> set [''xxyy'', ''xxyyzz''] then
          xxyy_error_loop bbox [1..<spatial_dims] (lt_cols (col bbox 1) (col bbox 0))
        else if mode1 \<in> set [''xyxy'', ''xyzxyz''] then
          corner_error_loop bbox spatial_dims [1..<spatial_dims]
            (lt_cols (col bbox spatial_dims) (col bbox 0))
        else Inl (ValueError ''Box mode not in SUPPORTED_MODE.''))
       (\<lambda>box_error. if length (filter id box_error) > 0 then Inr False else Inr True))))"


text \<open>
  \<open>bbox_t.split(1, dim=-1)\<close>: the tuple of all columns. Unpacking the tuple into a fixed
  number of names raises \<open>ValueError\<close> when the count differs.
\<close>

definition split1 :: "tensor2d \<Rightarrow> rat list list" where
  "split1 b = map (\<lambda>j. map (\<lambda>r. r ! j) (rows b)) [0..<ncols b]"

definition unpack_error :: error where
  "unpack_error = ValueError ''wrong number of values to unpack''"

definition add_cols :: "rat list \<Rightarrow> rat list \<Rightarrow> rat list" where
  "add_cols xs ys = map2 (\<lambda>a b. a + b) xs ys"

definition sub_cols :: "rat list \<Rightarrow> rat list \<Rightarrow> rat list" where
  "sub_cols xs ys = map2 (\<lambda>a b. a - b) xs ys"

text \<open>\<open>(w - TO_REMOVE).clamp(min=0)\<close> and \<open>((w - TO_REMOVE) / 2.0).clamp(min=0)\<close>.\<close>

definition clamped_size :: "rat list \<Rightarrow> rat list" where
  "clamped_size w = map (\<lambda>x. max (x - TO_REMOVE) 0) w"

definition clamped_half_size :: "rat list \<Rightarrow> rat list" where
  "clamped_half_size w = map (\<lambda>x. max ((x - TO_REMOVE) / 2) 0) w"

definition split_into_corners :: "tensor2d \<Rightarrow> string option \<Rightarrow> error + rat list list" where
  "split_into_corners bbox mode =
     bind_err (mode_or_standard bbox mode) (\<lambda>mode0.
     bind_err (look_up_option mode0 SUPPORTED_MODE) (\<lambda>mode1.
       if mode1 \<in> set [''xxyy'', ''xxyyzz''] then Inr (split1 bbox)
       else if mode1 = ''xyzxyz'' then
         (case split1 bbox of
            [xmin, ymin, zmin, xmax, ymax, zmax] \<Rightarrow> Inr [xmin, xmax, ymin, ymax, zmin, zmax]
          | _ \<Rightarrow> Inl unpack_error)
       else if mode1 = ''xyxy'' then
         (case split1 bbox of
            [xmin, ymin, xmax, ymax] \<Rightarrow> Inr [xmin, xmax, ymin, ymax]
          | _ \<Rightarrow> Inl unpack_error)
       else if mode1 = ''xyzwhd'' then
         (case split1 bbox of
            [xmin, ymin, zmin, w, h, d] \<Rightarrow>
              Inr [xmin, add_cols xmin (clamped_size w),
                   ymin, add_cols ymin (clamped_size h),
                   zmin, add_cols zmin (clamped_size d)]
          | _ \<Rightarrow> Inl unpack_error)
       else if mode1 = ''xywh'' then
         (case split1 bbox of
            [xmin, ymin, w, h] \<Rightarrow>
              Inr [xmin, add_cols xmin (clamped_size w), ymin, add_cols ymin (clamped_size h)]
          | _ \<Rightarrow> Inl unpack_error)
       else if mode1 = ''cccwhd'' then
         (case split1 bbox of
            [xc, yc, zc, w, h, d] \<Rightarrow>
              Inr [sub_cols xc (clamped_half_size w), add_cols xc (clamped_half_size w),
                   sub_cols yc (clamped_half_size h), add_cols yc (clamped_half_size h),
                   sub_cols zc (clamped_half_size d), add_cols zc (clamped_half_size d)]
          | _ \<Rightarrow> Inl unpack_error)
       else if mode1 = ''ccwh'' then
         (case split1 bbox of
            [xc, yc, w, h] \<Rightarrow>
              Inr [sub_cols xc (clamped_half_size w), add_cols xc (clamped_half_size w),
                   sub_cols yc (clamped_half_size h), add_cols yc (clamped_half_size h)]
          | _ \<Rightarrow> Inl unpack_error)
       else Inl (RuntimeError ''Should not be here'')))"

text \<open>
  \<open>torch.cat(columns, dim=-1)\<close> of \<open>N\<times>1\<close> columns: the \<open>N\<times>k\<close> array whose \<open>j\<close>-th column is
  the \<open>j\<close>-th argument. It raises on an empty tuple and on columns of different heights.
\<close>

definition cat_cols :: "rat list list \<Rightarrow> error + tensor2d" where
  "cat_cols cols =
     (case cols of
        [] \<Rightarrow> Inl (RuntimeError ''torch.cat(): expected a non-empty list of Tensors'')
      | c # cs \<Rightarrow>
          if list_all (\<lambda>c'. length c' = length c) cs
          then Inr \<lparr>ncols = length cols, rows = map (\<lambda>i. map (\<lambda>c'. c' ! i) cols) [0..<length c]\<rparr>
          else Inl (RuntimeError ''Sizes of tensors must match except in dimension 1''))"

text \<open>\<open>xmax - xmin + TO_REMOVE\<close> and \<open>(xmin + xmax + TO_REMOVE) / 2.0\<close>.\<close>

definition size_cols :: "rat list \<Rightarrow> rat list \<Rightarrow> rat list" where
  "size_cols cmax cmin = map2 (\<lambda>a b. a - b + TO_REMOVE) cmax cmin"

definition center_cols :: "rat list \<Rightarrow> rat list \<Rightarrow> rat list" where
  "center_cols cmin cmax = map2 (\<lambda>a b. (a + b + TO_REMOVE) / 2) cmin cmax"

definition dst_mode_error :: error where
  "dst_mode_error = ValueError ''We support only bbox mode in SUPPORTED_MODE''"

text \<open>
  Tensors live in a store; a reference is an index into it. \<open>deepcopy\<close> and
  \<open>torch.cat\<close> are the two operations of \<open>box_convert_mode\<close> that create a tensor:
  each appends a new tensor to the store and returns the reference to it, so that the
  new tensor shares no memory with any tensor that existed before. The columns returned
  by \<open>split\<close> are views and are passed around as values.
\<close>

type_synonym store = "tensor2d list"

definition new_tensor :: "store \<Rightarrow> tensor2d \<Rightarrow> nat \<times> store" where
  "new_tensor s t = (length s, s @ [t])"

definition deepcopy :: "store \<Rightarrow> nat \<Rightarrow> nat \<times> store" where
  "deepcopy s a = new_tensor s (s ! a)"

definition torch_cat :: "store \<Rightarrow> rat list list \<Rightarrow> error + nat \<times> store" where
  "torch_cat s cols = bind_err (cat_cols cols) (\<lambda>t. Inr (new_tensor s t))"

definition box_convert_mode ::
  "store \<Rightarrow> nat \<Rightarrow> string option \<Rightarrow> string option \<Rightarrow> error + nat \<times> store" where
  "box_convert_mode s bbox src_mode dst_mode =
     bind_err (check_box_mode (s ! bbox) src_mode) (\<lambda>ok.
     if \<not> ok then
       Inl (ValueError ''Given bbox has invalid values. The box size must be non-negative.'')
     else
     bind_err (mode_or_standard (s ! bbox) src_mode) (\<lambda>src0.
     bind_err (mode_or_standard (s ! bbox) dst_mode) (\<lambda>dst0.
     bind_err (look_up_option src0 SUPPORTED_MODE) (\<lambda>src.
     bind_err (look_up_option dst0 SUPPORTED_MODE) (\<lambda>dst.
     bind_err (get_dimension (Some (s ! bbox)) None (Some src)) (\<lambda>spatial_dims.
     if length src \<noteq> length dst then
       Inl (ValueError
         ''The dimension of the new mode should have the same spatial dimension as the old mode.'')
     else if src = dst then Inr (deepcopy s bbox)
     else if dst \<in> set [''xxyy'', ''xxyyzz''] then
       bind_err (split_into_corners (s ! bbox) (Some src)) (torch_cat s)
     else if spatial_dims = 3 then
       bind_err (split_into_corners (s ! bbox) (Some src)) (\<lambda>corners.
         case corners of
           [xmin, xmax, ymin, ymax, zmin, zmax] \<Rightarrow>
             if dst = ''xyzxyz'' then torch_cat s [xmin, ymin, zmin, xmax, ymax, zmax]
             else if dst = ''xyzwhd'' then
               torch_cat s [xmin, ymin, zmin,
                            size_cols xmax xmin, size_cols ymax ymin, size_cols zmax zmin]
             else if dst = ''cccwhd'' then
               torch_cat s [center_cols xmin xmax, center_cols ymin ymax, center_cols zmin zmax,
                            size_cols xmax xmin, size_cols ymax ymin, size_cols zmax zmin]
             else Inl dst_mode_error
         | _ \<Rightarrow> Inl unpack_error)
     else if spatial_dims = 2 then
       bind_err (split_into_corners (s ! bbox) (Some src)) (\<lambda>corners.
         case corners of
           [xmin, xmax, ymin, ymax] \<Rightarrow>
             if dst = ''xyxy'' then torch_cat s [xmin, ymin, xmax, ymax]
             else if dst = ''xywh'' then
               torch_cat s [xmin, ymin, size_cols xmax xmin, size_cols ymax ymin]
             else if dst = ''ccwh'' then
               torch_cat s [center_cols xmin xmax, center_cols ymin ymax,
                            size_cols xmax xmin, size_cols ymax ymin]
             else Inl dst_mode_error
         | _ \<Rightarrow> Inl unpack_error)
     else Inl (ValueError ''Images should have 2 or 3 dimensions'')))))))"

text \<open>
  The negative-size condition of one box, read off the encodings: in the corner-size and
  centre-size modes some size entry is negative; in \<open>xxyy\<close>/\<open>xxyyzz\<close> some maximum is below
  its minimum (entries \<open>2 * axis\<close> and \<open>2 * axis + 1\<close>); in \<open>xyxy\<close>/\<open>xyzxyz\<close> some maximum
  (entry \<open>d + axis\<close>) is below its minimum (entry \<open>axis\<close>).
\<close>

definition box_has_negative_size :: "string \<Rightarrow> rat list \<Rightarrow> bool" where
  "box_has_negative_size mode box =
     (let d = length mode div 2 in
      if mode \<in> set CORNER_SIZE_MODE \<or> mode \<in> set CENTER_SIZE_MODE then
        (\<exists>axis \<in> set [0..<d]. box ! (d + axis) < 0)
      else if mode \<in> set XXYYZZ_MODE then
        (\<exists>axis \<in> set [0..<d]. box ! (2 * axis + 1) < box ! (2 * axis))
      else (\<exists>axis \<in> set [0..<d]. box ! (d + axis) < box ! axis))"






section \<open>Datasets: \<open>monai/apps/datasets.py\<close>\<close>

text \<open>
  The file system as the constructors observe it: which paths are directories, which
  exist, and the entries \<open>os.listdir\<close> returns for a directory, in the order it returns
  them. \<open>os.listdir\<close> raises an \<open>OSError\<close> on a path that is not a directory.
\<close>

record world =
  isdir :: "string \<Rightarrow> bool"
  path_exists :: "string \<Rightarrow> bool"
  entries :: "string \<Rightarrow> string list"

definition listdir :: "world \<Rightarrow> string \<Rightarrow> error + string list" where
  "listdir w p = (if isdir w p then Inr (entries w p) else Inl (OSError p))"

text \<open>\<open>os.path.join\<close> (POSIX) for two and three components.\<close>

definition path_join :: "string \<Rightarrow> string \<Rightarrow> string" where
  "path_join a b =
     (if b \<noteq> [] \<and> hd b = CHR ''/'' then b
      else if a = [] \<or> last a = CHR ''/'' then a @ b
      else a @ ''/'' @ b)"

definition path_join3 :: "string \<Rightarrow> string \<Rightarrow> string \<Rightarrow> string" where
  "path_join3 a b c = path_join (path_join a b) c"

text \<open>
  One invocation of \<open>download_and_extract(url, filepath, output_dir, hash_val)\<close>. The
  function itself is not part of the sources: it is a parameter \<open>dl\<close> that maps the call
  and the file system to the file system after the download, or to the exception it
  raises. The constructors return the list of invocations they made next to their result.
\<close>

record download_call =
  url :: string
  filepath :: string
  output_dir :: string
  hash_val :: string

type_synonym downloader = "download_call \<Rightarrow> world \<Rightarrow> error + world"

text \<open>
  The random state \<open>self.R\<close>: the sequence of values that \<open>R.random()\<close> returns and the
  number of values drawn so far. \<open>set_random_state(seed)\<close> starts the sequence that the
  generator (a parameter \<open>gen\<close>, from seeds to sequences) gives for the seed.
\<close>

record rng =
  draws :: "nat \<Rightarrow> rat"
  pos :: nat

definition set_random_state :: "(int \<Rightarrow> nat \<Rightarrow> rat) \<Rightarrow> int \<Rightarrow> rng" where
  "set_random_state gen seed = \<lparr>draws = gen seed, pos = 0\<rparr>"

definition R_random :: "rng \<Rightarrow> rat \<times> rng" where
  "R_random r = (draws r (pos r), r\<lparr>pos := Suc (pos r)\<rparr>)"

subsection \<open>\<open>MedNISTDataset\<close>\<close>

definition MedNIST_resource :: string where
  "MedNIST_resource = ''https://www.dropbox.com/s/5wwskxctvcxiuea/MedNIST.tar.gz?dl=1''"

definition MedNIST_md5 :: string where
  "MedNIST_md5 = ''0bc7306e7427e00ad1c5526a6677552d''"

definition compressed_file_name :: string where
  "compressed_file_name = ''MedNIST.tar.gz''"

definition dataset_folder_name :: string where
  "dataset_folder_name = ''MedNIST''"

text \<open>The fields of a \<open>MedNISTDataset\<close> object that \<open>_generate_data_list\<close> reads and writes.\<close>

record mednist =
  m_section :: string
  m_val_frac :: rat
  m_test_frac :: rat
  m_R :: rng
  m_rann :: "rat option"

record item =
  image :: string
  label :: nat

definition randomize :: "mednist \<Rightarrow> mednist" where
  "randomize self = (let (x, r) = R_random (m_R self) in self\<lparr>m_R := r, m_rann := Some x\<rparr>)"

definition unsupported_section :: "string \<Rightarrow> error" where
  "unsupported_section sec =
     ValueError (''Unsupported section: '' @ sec @ '', available options are ['' @
       [CHR 0x22] @ ''training'' @ [CHR 0x22] @ '', '' @
       [CHR 0x22] @ ''validation'' @ [CHR 0x22] @ '', '' @
       [CHR 0x22] @ ''test'' @ [CHR 0x22] @ ''].'')"

text \<open>
  The loop \<open>for i in range(num_total)\<close>: one draw per index, then the test of the section;
  \<open>continue\<close> keeps \<open>data\<close> as it is, the \<open>else\<close> branch raises.
\<close>

fun data_loop ::
  "string list \<Rightarrow> nat list \<Rightarrow> nat list \<Rightarrow> mednist \<Rightarrow> item list \<Rightarrow> error + item list \<times> mednist" where
  "data_loop image_files_list image_class [] self data = Inr (data, self)"
| "data_loop image_files_list image_class (i # rest) self data =
     (let self1 = randomize self;
          rann = the (m_rann self1);
          appended = data @ [\<lparr>image = image_files_list ! i, label = image_class ! i\<rparr>]
      in if m_section self1 = ''training'' then
           (if rann < m_val_frac self1 + m_test_frac self1
            then data_loop image_files_list image_class rest self1 data
            else data_loop image_files_list image_class rest self1 appended)
         else if m_section self1 = ''validation'' then
           (if rann \<ge> m_val_frac self1
            then data_loop image_files_list image_class rest self1 data
            else data_loop image_files_list image_class rest self1 appended)
         else if m_section self1 = ''test'' then
           (if rann < m_val_frac self1 \<or> rann \<ge> m_val_frac self1 + m_test_frac self1
            then data_loop image_files_list image_class rest self1 data
            else data_loop image_files_list image_class rest self1 appended)
         else Inl (unsupported_section (m_section self1)))"

text \<open>
  The listing part of \<open>_generate_data_list\<close>: the sorted class folders, the files of each
  class with their full paths, and the flattened file and class lists.
\<close>

definition class_names_of :: "world \<Rightarrow> string \<Rightarrow> error + string list" where
  "class_names_of w dataset_dir =
     bind_err (listdir w dataset_dir) (\<lambda>xs.
       Inr (sort (filter (\<lambda>x. isdir w (path_join dataset_dir x)) xs)))"

fun image_files_of :: "world \<Rightarrow> string \<Rightarrow> string list \<Rightarrow> error + string list list" where
  "image_files_of w dataset_dir [] = Inr []"
| "image_files_of w dataset_dir (c # cs) =
     bind_err (listdir w (path_join dataset_dir c)) (\<lambda>xs.
     bind_err (image_files_of w dataset_dir cs) (\<lambda>rest.
       Inr (map (\<lambda>x. path_join3 dataset_dir c x) xs # rest)))"

definition list_images :: "world \<Rightarrow> string \<Rightarrow> error + string list \<times> nat list" where
  "list_images w dataset_dir =
     bind_err (class_names_of w dataset_dir) (\<lambda>class_names.
     bind_err (image_files_of w dataset_dir class_names) (\<lambda>image_files.
       let num_class = length class_names;
           num_each = map (\<lambda>i. length (image_files ! i)) [0..<num_class];
           image_files_list = concat (map (\<lambda>i. image_files ! i) [0..<num_class]);
           image_class = concat (map (\<lambda>i. replicate (num_each ! i) i) [0..<num_class])
       in Inr (image_files_list, image_class)))"

definition generate_data_list :: "world \<Rightarrow> mednist \<Rightarrow> string \<Rightarrow> error + item list \<times> mednist" where
  "generate_data_list w self dataset_dir =
     bind_err (list_images w dataset_dir) (\<lambda>(image_files_list, image_class).
       let num_total = length image_class
       in data_loop image_files_list image_class [0..<num_total] self [])"




definition new_mednist :: "(int \<Rightarrow> nat \<Rightarrow> rat) \<Rightarrow> string \<Rightarrow> int \<Rightarrow> rat \<Rightarrow> rat \<Rightarrow> mednist" where
  "new_mednist gen sec seed val_frac test_frac =
     \<lparr>m_section = sec, m_val_frac = val_frac, m_test_frac = test_frac,
      m_R = set_random_state gen seed, m_rann = None\<rparr>"

text \<open>
  \<open>MedNISTDataset.__init__\<close>. The object starts with the fields the constructor sets
  (\<open>new_mednist\<close>: the section, the fractions, the seeded random state). The transform and the cache parameters are passed on to
  \<open>CacheDataset\<close> unchanged and are left out; the constructed dataset is represented by
  its data list. The result is paired with the invocations of \<open>download_and_extract\<close>.
\<close>

definition MedNISTDataset_init ::
  "downloader \<Rightarrow> (int \<Rightarrow> nat \<Rightarrow> rat) \<Rightarrow> world \<Rightarrow> string \<Rightarrow> string \<Rightarrow> bool \<Rightarrow> int \<Rightarrow> rat \<Rightarrow> rat
     \<Rightarrow> download_call list \<times> (error + item list)" where
  "MedNISTDataset_init dl gen w root_dir sec download seed val_frac test_frac =
     (if \<not> isdir w root_dir then
        ([], Inl (ValueError ''Root directory root_dir must be a directory.''))
      else
        let self = new_mednist gen sec seed val_frac test_frac;
            tarfile_name = path_join root_dir compressed_file_name;
            dataset_dir = path_join root_dir dataset_folder_name;
            call = \<lparr>url = MedNIST_resource, filepath = tarfile_name, output_dir = root_dir,
                     hash_val = MedNIST_md5\<rparr>;
            calls = (if download then [call] else []);
            downloaded = (if download then dl call w else Inr w)
        in (calls,
            bind_err downloaded (\<lambda>w1.
              if \<not> path_exists w1 dataset_dir then
                Inl (RuntimeError (''Cannot find dataset directory: '' @ dataset_dir @
                       '', please use download=True to download it.''))
              else bind_err (generate_data_list w1 self dataset_dir) (\<lambda>(data, self1). Inr data))))"

subsection \<open>\<open>DecathlonDataset\<close>\<close>



text \<open>\<open>str(list(d.keys()))\<close> for a dictionary with string keys.\<close>

fun comma_sep :: "string list \<Rightarrow> string" where
  "comma_sep [] = []"
| "comma_sep [x] = x"
| "comma_sep (x # y # ys) = x @ '', '' @ comma_sep (y # ys)"




definition empty_world :: world where
  "empty_world =
     \<lparr>isdir = (\<lambda>p. p = ''data'' \<or> p = ''data/MedNIST''),
      path_exists = (\<lambda>p. p = ''data'' \<or> p = ''data/MedNIST''),
      entries = (\<lambda>p. if p = ''data'' then [''MedNIST''] else [])\<rparr>"

definition no_download :: downloader where
  "no_download c w = Inr w"

definition example_gen :: "int \<Rightarrow> nat \<Rightarrow> rat" where
  "example_gen seed k = 5488135039273248 / 10000000000000000"


section \<open>Bundle generation: \<open>monai/apps/auto3dseg/bundle_gen.py\<close>\<close>

text \<open>Decimal representation of Python integers (\<open>str(i)\<close>, \<open>f"{i:d}"\<close>).\<close>

definition digit_char :: "nat \<Rightarrow> char" where
  "digit_char d = ''0123456789'' ! d"

function str_nat :: "nat \<Rightarrow> string" where
  "str_nat n = (if n < 10 then [digit_char n] else str_nat (n div 10) @ [digit_char (n mod 10)])"
  by pat_completeness auto
termination
  by (relation "measure id") auto

definition str_int :: "int \<Rightarrow> string" where
  "str_int i = (if i < 0 then ''-'' @ str_nat (nat (- i)) else str_nat (nat i))"

text \<open>
  Values of the \<open>train_params\<close> dictionary: integers, strings and lists of integers (the
  device list). \<open>py_str\<close> is \<open>str(v)\<close>.
\<close>

datatype pval = PInt int | PStr string | PInts "int list"

definition py_str :: "pval \<Rightarrow> string" where
  "py_str v =
     (case v of
        PInt i \<Rightarrow> str_int i
      | PStr s \<Rightarrow> s
      | PInts xs \<Rightarrow> ''['' @ comma_sep (map str_int xs) @ '']'')"

text \<open>\<open>",".join(parts)\<close>.\<close>

fun comma_join :: "string list \<Rightarrow> string" where
  "comma_join [] = []"
| "comma_join [x] = x"
| "comma_join (x # y # ys) = x @ '','' @ comma_join (y # ys)"

text \<open>
  \<open>len(devices)\<close> and \<open>[str(x) for x in devices]\<close>: a list of integers gives its length and
  its elements, a string its characters, an integer raises \<open>TypeError\<close>.
\<close>

definition devices_info :: "pval \<Rightarrow> error + nat \<times> string" where
  "devices_info devices =
     (case devices of
        PInts xs \<Rightarrow> Inr (length xs, comma_join (map str_int xs))
      | PStr s \<Rightarrow> Inr (length s, comma_join (map (\<lambda>c. [c]) s))
      | PInt i \<Rightarrow> Inl TypeError)"

text \<open>\<open>cmd.split()\<close>: split at runs of (ASCII) white space, dropping empty words.\<close>

definition is_space :: "char \<Rightarrow> bool" where
  "is_space c =
     (let n = (of_char c :: nat) in n = 32 \<or> (9 \<le> n \<and> n \<le> 13) \<or> (28 \<le> n \<and> n \<le> 31))"

fun split_acc :: "string \<Rightarrow> string \<Rightarrow> string list" where
  "split_acc cur [] = (if cur = [] then [] else [cur])"
| "split_acc cur (c # cs) =
     (if is_space c then (if cur = [] then split_acc [] cs else cur # split_acc [] cs)
      else split_acc (cur @ [c]) cs)"

definition py_split :: "string \<Rightarrow> string list" where
  "py_split s = split_acc [] s"

text \<open>
  The operating system as \<open>train\<close> sees it: the number of CUDA devices, \<open>os.environ\<close>, and
  \<open>subprocess.run(argv, env=..., capture_output=True)\<close> as a function \<open>run\<close> from the
  argument vector and environment to the completed process, or to the message of the
  \<open>OSError\<close> raised when the process cannot be started. \<open>fmt\<close> stands for the rendering
  \<open>repr(b).replace(..).replace(..)\<close> of captured output.
\<close>

record completed_process =
  returncode :: int
  stdout :: string
  stderr :: string

type_synonym environ = "string \<Rightarrow> string option"

type_synonym runner = "string list \<Rightarrow> environ \<Rightarrow> string + completed_process"

text \<open>The loop \<open>for k, v in params.items(): cmd += f" --{k}={v}"\<close>.\<close>

fun add_params :: "string \<Rightarrow> (string \<times> pval) list \<Rightarrow> string" where
  "add_params cmd [] = cmd"
| "add_params cmd ((k, v) # rest) = add_params (cmd @ '' --'' @ k @ ''='' @ py_str v) rest"

text \<open>
  The device settings of \<open>train\<close>: with the key \<open>CUDA_VISIBLE_DEVICES\<close> in \<open>params\<close> the
  entry is popped and gives the number of devices and the device string; otherwise the
  number is the CUDA device count and the string is empty. The result carries the
  remaining \<open>params\<close>.
\<close>

definition device_settings ::
  "nat \<Rightarrow> (string \<times> pval) list \<Rightarrow> error + nat \<times> string \<times> (string \<times> pval) list" where
  "device_settings device_count params =
     (case map_of params ''CUDA_VISIBLE_DEVICES'' of
        Some devices \<Rightarrow>
          bind_err (devices_info devices) (\<lambda>(n_devices, devices_str).
            Inr (n_devices, devices_str,
                 filter (\<lambda>(k, v). k \<noteq> ''CUDA_VISIBLE_DEVICES'') params))
      | None \<Rightarrow> Inr (device_count, [], params))"

text \<open>
  \<open>BundleAlgo.train\<close>. \<open>output_path\<close> is the attribute \<open>self.output_path\<close> (\<open>None\<close> until
  \<open>export_to_disk\<close> has run, and then \<open>os.path.join\<close> raises \<open>TypeError\<close>). The local
  variable \<open>params\<close> is bound only when \<open>train_params\<close> is not \<open>None\<close>; its first use
  otherwise raises \<open>UnboundLocalError\<close>. The result is paired with the list of processes
  launched (argument vector and environment).
\<close>

definition train ::
  "runner \<Rightarrow> (string \<Rightarrow> string) \<Rightarrow> nat \<Rightarrow> environ \<Rightarrow> string option \<Rightarrow> (string \<times> pval) list option
     \<Rightarrow> (string list \<times> environ) list \<times> (error + completed_process)" where
  "train run fmt device_count os_environ output_path train_params =
     (case output_path of
        None \<Rightarrow> ([], Inl TypeError)
      | Some out \<Rightarrow>
          let train_py = path_join3 out ''scripts'' ''train.py'';
              config_yaml = path_join3 out ''configs'' ''algo_config.yaml'';
              base_cmd = train_py @ '' run --config_file='' @ config_yaml @ '' ''
          in case train_params of
               None \<Rightarrow> ([], Inl (UnboundLocalError ''params''))
             | Some params0 \<Rightarrow>
                 (case device_settings device_count params0 of
                    Inl e \<Rightarrow> ([], Inl e)
                  | Inr (n_devices, devices_str, params) \<Rightarrow>
                      let cmd0 = (if n_devices > 1
                                  then ''torchrun --nnodes='' @ str_int 1 @ '' --nproc_per_node='' @
                                         str_int (int n_devices) @ '' ''
                                  else ''python '');
                          cmd = add_params (cmd0 @ base_cmd) params;
                          ps_environ = (if devices_str \<noteq> []
                                        then os_environ(''CUDA_VISIBLE_DEVICES'' \<mapsto> devices_str)
                                        else os_environ);
                          argv = py_split cmd
                      in ([(argv, ps_environ)],
                          case run argv ps_environ of
                            Inl msg \<Rightarrow> Inl (OSError msg)
                          | Inr normal_out \<Rightarrow>
                              if returncode normal_out \<noteq> 0 then
                                Inl (RuntimeError
                                  (''subprocess call error '' @ str_int (returncode normal_out) @
                                   '': '' @ fmt (stderr normal_out) @ '', '' @
                                   fmt (stdout normal_out)))
                              else Inr normal_out)))"

subsection \<open>\<open>BundleGen\<close>\<close>




text \<open>
  The launch command, the environment of the launched process and the check of the return
  code, written out on their own: \<open>torchrun --nnodes=1 --nproc_per_node=N\<close> or \<open>python\<close>,
  then the invocation of the train script with the remaining parameters as options; the
  environment with \<open>CUDA_VISIBLE_DEVICES\<close> set to a non-empty device string; the
  \<open>RuntimeError\<close> with return code, captured error output and captured output.
\<close>

definition train_cmd :: "string \<Rightarrow> nat \<Rightarrow> (string \<times> pval) list \<Rightarrow> string" where
  "train_cmd out n params =
     add_params
       ((if n > 1 then ''torchrun --nnodes=1 --nproc_per_node='' @ str_int (int n) @ '' ''
         else ''python '') @
        path_join3 out ''scripts'' ''train.py'' @ '' run --config_file='' @
        path_join3 out ''configs'' ''algo_config.yaml'' @ '' '')
       params"

definition train_environ :: "environ \<Rightarrow> string \<Rightarrow> environ" where
  "train_environ os_environ devices_str =
     (if devices_str \<noteq> [] then os_environ(''CUDA_VISIBLE_DEVICES'' \<mapsto> devices_str)
      else os_environ)"

definition check_returncode ::
  "(string \<Rightarrow> string) \<Rightarrow> string + completed_process \<Rightarrow> error + completed_process" where
  "check_returncode fmt r =
     (case r of
        Inl msg \<Rightarrow> Inl (OSError msg)
      | Inr cp \<Rightarrow>
          if returncode cp \<noteq> 0 then
            Inl (RuntimeError (''subprocess call error '' @ str_int (returncode cp) @ '': '' @
                   fmt (stderr cp) @ '', '' @ fmt (stdout cp)))
          else Inr cp)"


definition ok_run :: runner where
  "ok_run argv e = Inr \<lparr>returncode = 0, stdout = ''done'', stderr = []\<rparr>"

section \<open>Tumor FROC evaluation: \<open>monai/apps/pathology/evaluators.py\<close>\<close>

text \<open>
  A sample is the dictionary with the keys \<open>prob_map\<close>, \<open>tumor_mask\<close>, \<open>level\<close> and
  \<open>pixel_spacing\<close>. Loading the probability map and the non-maximal suppression are the
  parameter \<open>nms\<close> (from the path and the level to the list of detections
  \<open>[prob, x, y]\<close>); \<open>prepare_ground_truth\<close>, which rests on the image reader and on
  image morphology, and \<open>compute_fp_tp_probs\<close> of \<open>monai.metrics\<close> are parameters too.
\<close>

record sample =
  prob_map :: string
  tumor_mask :: string
  level :: nat
  pixel_spacing :: rat

text \<open>The keyword arguments of one call of \<open>compute_fp_tp_probs\<close>.\<close>

record 'm fp_tp_args =
  probs :: "rat list"
  y_coord :: "int list"
  x_coord :: "int list"
  evaluation_mask :: 'm
  labels_to_exclude :: "nat list"
  resolution_level :: nat

text \<open>\<open>prepare_inference_result\<close> returns the triple \<open>(probs, x_coord, y_coord)\<close>.\<close>

definition prepare_inference_result ::
  "(string \<Rightarrow> nat \<Rightarrow> (rat \<times> int \<times> int) list) \<Rightarrow> sample \<Rightarrow> rat list \<times> int list \<times> int list" where
  "prepare_inference_result nms s =
     (let nms_outputs = nms (prob_map s) (level s)
      in if nms_outputs \<noteq> []
         then (map (\<lambda>(p, x, y). p) nms_outputs, map (\<lambda>(p, x, y). x) nms_outputs,
               map (\<lambda>(p, x, y). y) nms_outputs)
         else ([], [], []))"

text \<open>
  The loop of \<open>compute_fp_tp\<close> over the samples, with the running totals and the calls
  of \<open>compute_fp_tp_probs\<close> made so far. The triple of \<open>prepare_inference_result\<close> is
  unpacked into the local names \<open>probs, y_coord, x_coord\<close>, in this order.
\<close>

fun fp_tp_loop ::
  "(string \<Rightarrow> nat \<Rightarrow> (rat \<times> int \<times> int) list) \<Rightarrow> (sample \<Rightarrow> 'm \<times> nat list) \<Rightarrow>
   ('m fp_tp_args \<Rightarrow> rat list \<times> rat list \<times> nat) \<Rightarrow> sample list \<Rightarrow>
   rat list \<times> rat list \<times> nat \<Rightarrow> 'm fp_tp_args list \<Rightarrow>
   (rat list \<times> rat list \<times> nat) \<times> 'm fp_tp_args list" where
  "fp_tp_loop nms prepare_ground_truth compute_fp_tp_probs [] totals calls = (totals, calls)"
| "fp_tp_loop nms prepare_ground_truth compute_fp_tp_probs (s # rest)
     (total_fp_probs, total_tp_probs, total_num_targets) calls =
     (let (probs_l, y_coord_l, x_coord_l) = prepare_inference_result nms s;
          (ground_truth, itc_labels) = prepare_ground_truth s;
          args = \<lparr>probs = probs_l, y_coord = y_coord_l, x_coord = x_coord_l,
                  evaluation_mask = ground_truth, labels_to_exclude = itc_labels,
                  resolution_level = level s\<rparr>;
          (fp_probs, tp_probs, num_targets) = compute_fp_tp_probs args
      in fp_tp_loop nms prepare_ground_truth compute_fp_tp_probs rest
           (total_fp_probs @ fp_probs, total_tp_probs @ tp_probs, total_num_targets + num_targets)
           (calls @ [args]))"

text \<open>
  \<open>compute_fp_tp\<close>: the result \<open>(fp_probs, tp_probs, total_num_targets, num_images)\<close>, paired
  with the calls of \<open>compute_fp_tp_probs\<close> in the order they were made.
\<close>

definition compute_fp_tp ::
  "(string \<Rightarrow> nat \<Rightarrow> (rat \<times> int \<times> int) list) \<Rightarrow> (sample \<Rightarrow> 'm \<times> nat list) \<Rightarrow>
   ('m fp_tp_args \<Rightarrow> rat list \<times> rat list \<times> nat) \<Rightarrow> sample list \<Rightarrow>
   (rat list \<times> rat list \<times> nat \<times> nat) \<times> 'm fp_tp_args list" where
  "compute_fp_tp nms prepare_ground_truth compute_fp_tp_probs data =
     (let num_images = length data;
          ((total_fp_probs, total_tp_probs, total_num_targets), calls) =
            fp_tp_loop nms prepare_ground_truth compute_fp_tp_probs data ([], [], 0) []
      in ((total_fp_probs, total_tp_probs, total_num_targets, num_images), calls))"

text \<open>An example: one sample with the single detection \<open>[0.9, 1, 2]\<close>, that is \<open>x = 1\<close>, \<open>y = 2\<close>.\<close>

definition example_sample :: sample where
  "example_sample = \<lparr>prob_map = ''p.npy'', tumor_mask = ''m.tif'', level = 0, pixel_spacing = 1\<rparr>"

definition example_nms :: "string \<Rightarrow> nat \<Rightarrow> (rat \<times> int \<times> int) list" where
  "example_nms path lvl = [(9 / 10, 1, 2)]"

definition example_ground_truth :: "sample \<Rightarrow> unit \<times> nat list" where
  "example_ground_truth s = ((), [])"

definition example_fp_tp_probs :: "unit fp_tp_args \<Rightarrow> rat list \<times> rat list \<times> nat" where
  "example_fp_tp_probs a = (probs a, [], 0)"

section \<open>Loss utilities: \<open>monai/losses/utils.py\<close>\<close>

text \<open>
  A tensor is its shape and its entries, one for every index within the shape; entries
  are rationals (exact arithmetic). \<open>mk_tensor\<close> fixes the value outside the shape, so
  that two tensors built by the operations below are equal when their shapes and their
  entries within the shape are.
\<close>

record tensor =
  shape :: "nat list"
  elem :: "nat list \<Rightarrow> rat"

definition valid_index :: "nat list \<Rightarrow> nat list \<Rightarrow> bool" where
  "valid_index s idx = list_all2 (\<lambda>i n. i < n) idx s"

definition mk_tensor :: "nat list \<Rightarrow> (nat list \<Rightarrow> rat) \<Rightarrow> tensor" where
  "mk_tensor s f = \<lparr>shape = s, elem = (\<lambda>idx. if valid_index s idx then f idx else 0)\<rparr>"

text \<open>
  Broadcasting of two shapes, aligned at the last dimension: two sizes are compatible
  when they are equal or one of them is 1. \<open>bidx s idx\<close> is the index into a tensor of
  shape \<open>s\<close> that the index \<open>idx\<close> of the broadcast result reads.
\<close>

fun bshape_rev :: "nat list \<Rightarrow> nat list \<Rightarrow> nat list option" where
  "bshape_rev [] ys = Some ys"
| "bshape_rev (x # xs) [] = Some (x # xs)"
| "bshape_rev (x # xs) (y # ys) =
     (if x = y \<or> y = 1 then map_option ((#) x) (bshape_rev xs ys)
      else if x = 1 then map_option ((#) y) (bshape_rev xs ys)
      else None)"

definition broadcast_shapes :: "nat list \<Rightarrow> nat list \<Rightarrow> nat list option" where
  "broadcast_shapes s1 s2 = map_option rev (bshape_rev (rev s1) (rev s2))"

definition bidx :: "nat list \<Rightarrow> nat list \<Rightarrow> nat list" where
  "bidx s idx = map2 (\<lambda>n i. if n = 1 then 0 else i) s (drop (length idx - length s) idx)"

text \<open>Elementwise binary operations \<open>a * b\<close> and \<open>a - b\<close>, and \<open>1 - t\<close> with a scalar.\<close>

definition binop :: "(rat \<Rightarrow> rat \<Rightarrow> rat) \<Rightarrow> tensor \<Rightarrow> tensor \<Rightarrow> error + tensor" where
  "binop f a b =
     (case broadcast_shapes (shape a) (shape b) of
        None \<Rightarrow> Inl (RuntimeError ''The size of tensor a must match the size of tensor b'')
      | Some s \<Rightarrow>
          Inr (mk_tensor s (\<lambda>idx. f (elem a (bidx (shape a) idx)) (elem b (bidx (shape b) idx)))))"

definition tmul :: "tensor \<Rightarrow> tensor \<Rightarrow> error + tensor" where
  "tmul a b = binop (\<lambda>x y. x * y) a b"

definition tsub :: "tensor \<Rightarrow> tensor \<Rightarrow> error + tensor" where
  "tsub a b = binop (\<lambda>x y. x - y) a b"

definition rsub :: "rat \<Rightarrow> tensor \<Rightarrow> tensor" where
  "rsub c t = mk_tensor (shape t) (\<lambda>idx. c - elem t idx)"

text \<open>
  \<open>torch.sum(t, dim=dims)\<close>. A negative dimension counts from the end; a dimension out
  of range raises \<open>IndexError\<close> (a tensor without dimensions accepts \<open>0\<close> and \<open>-1\<close>), a
  dimension given twice \<open>RuntimeError\<close>; the empty list reduces all dimensions. The result keeps the dimensions that are not reduced, and its
  entry at an index is the sum over all indices of the reduced dimensions.
\<close>

fun norm_dims :: "nat \<Rightarrow> int list \<Rightarrow> error + nat list" where
  "norm_dims r [] = Inr []"
| "norm_dims r (d # ds) =
     (let r1 = int (max r 1)
      in if d < - r1 \<or> d \<ge> r1 then Inl IndexError
         else bind_err (norm_dims r ds) (\<lambda>rest.
                let n = nat (if d < 0 then d + r1 else d)
                in if n \<in> set rest
                   then Inl (RuntimeError ''dim appears multiple times in the list of dims'')
                   else Inr (n # rest)))"

fun kept_shape :: "nat \<Rightarrow> nat list \<Rightarrow> nat list \<Rightarrow> nat list" where
  "kept_shape p [] R = []"
| "kept_shape p (n # s) R = (if p \<in> set R then kept_shape (Suc p) s R else n # kept_shape (Suc p) s R)"

fun full_indices :: "nat \<Rightarrow> nat list \<Rightarrow> nat list \<Rightarrow> nat list \<Rightarrow> nat list list" where
  "full_indices p [] R j = [[]]"
| "full_indices p (n # s) R j =
     (if p \<in> set R then concat (map (\<lambda>i. map ((#) i) (full_indices (Suc p) s R j)) [0..<n])
      else (case j of
              [] \<Rightarrow> []
            | i # j' \<Rightarrow> map ((#) i) (full_indices (Suc p) s R j')))"

definition sum_over :: "nat list \<Rightarrow> nat list \<Rightarrow> (nat list \<Rightarrow> rat) \<Rightarrow> tensor" where
  "sum_over s R f =
     mk_tensor (kept_shape 0 s R) (\<lambda>j. sum_list (map f (full_indices 0 s R j)))"

definition tsum :: "tensor \<Rightarrow> int list \<Rightarrow> error + tensor" where
  "tsum t dims =
     bind_err (norm_dims (length (shape t)) dims) (\<lambda>R0.
       let R = (if R0 = [] then [0..<length (shape t)] else R0)
       in Inr (sum_over (shape t) R (elem t)))"

text \<open>
  \<open>compute_tp_fp_fn\<close>. \<open>LA.vector_norm\<close> and \<open>torch.pow\<close>, used only in the branch for
  \<open>ord \<noteq> 1\<close> or soft labels, are the parameters \<open>vector_norm\<close> and \<open>tpow\<close>; \<open>half\<close> is the
  division of a tensor by 2.
\<close>

definition half :: "tensor \<Rightarrow> tensor" where
  "half t = mk_tensor (shape t) (\<lambda>idx. elem t idx / 2)"

definition tadd :: "tensor \<Rightarrow> tensor \<Rightarrow> error + tensor" where
  "tadd a b = binop (\<lambda>x y. x + y) a b"

definition compute_tp_fp_fn ::
  "(tensor \<Rightarrow> int \<Rightarrow> int list \<Rightarrow> error + tensor) \<Rightarrow> (tensor \<Rightarrow> int \<Rightarrow> error + tensor) \<Rightarrow>
   tensor \<Rightarrow> tensor \<Rightarrow> int list \<Rightarrow> int \<Rightarrow> bool \<Rightarrow> bool \<Rightarrow> error + tensor \<times> tensor \<times> tensor" where
  "compute_tp_fp_fn vector_norm tpow input target reduce_axis ord soft_label decoupled =
     (if ord = 1 \<and> \<not> soft_label then
        bind_err (tmul input target) (\<lambda>it.
        bind_err (tsum it reduce_axis) (\<lambda>tp.
          if decoupled then
            bind_err (tsum input reduce_axis) (\<lambda>si.
            bind_err (tsub si tp) (\<lambda>fp.
            bind_err (tsum target reduce_axis) (\<lambda>st.
            bind_err (tsub st tp) (\<lambda>fn.
              Inr (tp, fp, fn)))))
          else
            bind_err (tmul input (rsub 1 target)) (\<lambda>a.
            bind_err (tsum a reduce_axis) (\<lambda>fp.
            bind_err (tmul (rsub 1 input) target) (\<lambda>b.
            bind_err (tsum b reduce_axis) (\<lambda>fn.
              Inr (tp, fp, fn)))))))
      else
        bind_err (vector_norm input ord reduce_axis) (\<lambda>pred_o.
        bind_err (vector_norm target ord reduce_axis) (\<lambda>ground_o.
        bind_err (tsub input target) (\<lambda>diff.
        bind_err (vector_norm diff ord reduce_axis) (\<lambda>difference.
        bind_err (if ord > 1 then tpow pred_o ord else Inr pred_o) (\<lambda>pred_o1.
        bind_err (if ord > 1 then tpow ground_o ord else Inr ground_o) (\<lambda>ground_o1.
        bind_err (if ord > 1 then tpow difference ord else Inr difference) (\<lambda>difference1.
        bind_err (tadd pred_o1 ground_o1) (\<lambda>s1.
        bind_err (tsub s1 difference1) (\<lambda>s2.
          let tp = half s2
          in bind_err (tsub pred_o1 tp) (\<lambda>fp.
             bind_err (tsub ground_o1 tp) (\<lambda>fn.
               Inr (tp, fp, fn)))))))))))))"

text \<open>Example tensors: a vector of two ones and a vector holding a single one.\<close>

definition ones2 :: tensor where
  "ones2 = mk_tensor [2] (\<lambda>idx. 1)"

definition ones1 :: tensor where
  "ones1 = mk_tensor [1] (\<lambda>idx. 1)"

definition no_vector_norm :: "tensor \<Rightarrow> int \<Rightarrow> int list \<Rightarrow> error + tensor" where
  "no_vector_norm t p dims = Inl TypeError"

definition no_tpow :: "tensor \<Rightarrow> int \<Rightarrow> error + tensor" where
  "no_tpow t p = Inl TypeError"

section \<open>Batch inverse transform: \<open>monai/data/inverse_batch_transform.py\<close>\<close>

text \<open>
  A data item is a dictionary with string keys, in insertion order. Under a key it holds
  a value (an image or anything else a transform works on) or, under the key
  \<open>key_transforms\<close>, the list of the records of the transforms applied to \<open>key\<close>, the
  most recent one last. A record has the entries \<open>class\<close> and \<open>orig_size\<close>.
\<close>

record transform_record =
  t_class :: string
  orig_size :: "nat list"

datatype 'v entry = Value 'v | Transforms "transform_record list"

type_synonym 'v data_item = "(string \<times> 'v entry) list"

definition transforms_key :: "string \<Rightarrow> string" where
  "transforms_key key = key @ ''_transforms''"

text \<open>\<open>data[key] = v\<close>: an existing key keeps its place, a new key is added at the end.\<close>

fun dict_set :: "string \<Rightarrow> 'e \<Rightarrow> (string \<times> 'e) list \<Rightarrow> (string \<times> 'e) list" where
  "dict_set k v [] = [(k, v)]"
| "dict_set k v ((k', v') # d) = (if k = k' then (k, v) # d else (k', v') # dict_set k v d)"

text \<open>\<open>[key for key in data.keys() if str(key) + "_transforms" in data.keys()]\<close>.\<close>

definition default_keys :: "'v data_item \<Rightarrow> string list" where
  "default_keys data = filter (\<lambda>key. transforms_key key \<in> fst ` set data) (map fst data)"

definition expected_padd :: "string \<Rightarrow> error" where
  "expected_padd cls =
     RuntimeError (''Expected most recent transform to have been SpatialPadd because '' @
                   ''pad_list_data_collate was used. Instead, found '' @ cls)"

text \<open>
  The loop \<open>for key in keys\<close> of \<open>__getitem__\<close> that undoes the padding. \<open>crop\<close> is
  \<open>CenterSpatialCrop(roi_size)(img)\<close>, a parameter. A missing key raises \<open>KeyError\<close>, an
  entry without \<open>pop\<close> raises \<open>AttributeError\<close>, \<open>pop\<close> from an empty list raises
  \<open>IndexError\<close>.
\<close>

fun undo_pad ::
  "(nat list \<Rightarrow> 'v entry \<Rightarrow> error + 'v entry) \<Rightarrow> string list \<Rightarrow> 'v data_item \<Rightarrow> error + 'v data_item" where
  "undo_pad crop [] data = Inr data"
| "undo_pad crop (key # keys) data =
     (let transform_key = transforms_key key
      in case map_of data transform_key of
           None \<Rightarrow> Inl (KeyError transform_key)
         | Some (Value x) \<Rightarrow> Inl AttributeError
         | Some (Transforms ts) \<Rightarrow>
             if ts = [] then Inl IndexError
             else
               let transform = last ts;
                   data1 = dict_set transform_key (Transforms (butlast ts)) data
               in if t_class transform \<noteq> ''SpatialPadd''
                  then Inl (expected_padd (t_class transform))
                  else (case map_of data1 key of
                          None \<Rightarrow> Inl (KeyError key)
                        | Some v \<Rightarrow>
                            bind_err (crop (orig_size transform) v) (\<lambda>v'.
                              undo_pad crop keys (dict_set key v' data1))))"

text \<open>
  The fields of \<open>_BatchInverseDataset\<close>; the transform is the parameter \<open>inverse_fn\<close>
  (\<open>transform.inverse(data, keys)\<close>). \<open>decollate_batch\<close> is the parameter \<open>decollate\<close>.
  \<open>self.keys\<close> is \<open>ensure_tuple(keys) if keys else None\<close>.
\<close>

record 'v batch_inverse_dataset =
  ds_data :: "'v data_item list"
  ds_keys :: "string list option"
  ds_pad_collation_used :: bool

definition BatchInverseDataset_init ::
  "('b \<Rightarrow> 'v data_item list) \<Rightarrow> 'b \<Rightarrow> string list option \<Rightarrow> bool \<Rightarrow> 'v batch_inverse_dataset" where
  "BatchInverseDataset_init decollate data keys pad_collation_used =
     \<lparr>ds_data = decollate data,
      ds_keys = (case keys of None \<Rightarrow> None | Some [] \<Rightarrow> None | Some (k # ks) \<Rightarrow> Some (k # ks)),
      ds_pad_collation_used = pad_collation_used\<rparr>"

text \<open>
  \<open>_BatchInverseDataset.__getitem__\<close>. The copy \<open>dict(self.data[index])\<close> is shallow:
  \<open>pop\<close> also shortens the list held by the stored item, which is not read again while
  the batch is built and is left out here.
\<close>

definition getitem ::
  "(nat list \<Rightarrow> 'v entry \<Rightarrow> error + 'v entry) \<Rightarrow> ('v data_item \<Rightarrow> string list option \<Rightarrow> error + 'r) \<Rightarrow>
   'v batch_inverse_dataset \<Rightarrow> nat \<Rightarrow> error + 'r" where
  "getitem crop inverse_fn self index =
     (if index \<ge> length (ds_data self) then Inl IndexError
      else
        let data = ds_data self ! index
        in bind_err
             (if ds_pad_collation_used self then
                undo_pad crop (case ds_keys self of Some ks \<Rightarrow> ks | None \<Rightarrow> default_keys data) data
              else Inr data)
             (\<lambda>data1. inverse_fn data1 (ds_keys self)))"

text \<open>
  \<open>BatchInverseTransform\<close>: the constructor reads the batch size, the number of workers
  and the collate function of the loader; collate functions are compared by identity.
\<close>

datatype collate_id = PadListDataCollate | OtherCollate nat

record loader =
  batch_size :: nat
  num_workers :: nat
  collate_fn :: collate_id

record batch_inverse_transform =
  bit_batch_size :: nat
  bit_num_workers :: nat
  bit_pad_collation_used :: bool

definition BatchInverseTransform_init :: "loader \<Rightarrow> batch_inverse_transform" where
  "BatchInverseTransform_init l =
     \<lparr>bit_batch_size = batch_size l, bit_num_workers = num_workers l,
      bit_pad_collation_used = (collate_fn l = PadListDataCollate)\<rparr>"

text \<open>The items of the first batch, read in order; the first exception ends the reading.\<close>

fun get_batch ::
  "(nat list \<Rightarrow> 'v entry \<Rightarrow> error + 'v entry) \<Rightarrow> ('v data_item \<Rightarrow> string list option \<Rightarrow> error + 'r) \<Rightarrow>
   'v batch_inverse_dataset \<Rightarrow> nat list \<Rightarrow> error + 'r list" where
  "get_batch crop inverse_fn ds [] = Inr []"
| "get_batch crop inverse_fn ds (i # rest) =
     bind_err (getitem crop inverse_fn ds i) (\<lambda>x.
     bind_err (get_batch crop inverse_fn ds rest) (\<lambda>xs. Inr (x # xs)))"

text \<open>\<open>sub in s\<close> for strings.\<close>

fun contains :: "string \<Rightarrow> string \<Rightarrow> bool" where
  "contains sub [] = (sub = [])"
| "contains sub (c # cs) = (take (length sub) (c # cs) = sub \<or> contains sub cs)"

definition add_hint :: "error \<Rightarrow> error" where
  "add_hint e =
     (case e of
        RuntimeError re_str \<Rightarrow>
          RuntimeError
            (if contains ''stack expects each tensor to be equal size'' re_str
             then re_str @ [CHR 0x0A] @
                  ''MONAI hint: try creating `BatchInverseTransform` with `collate_fn=lambda x: x`.''
             else re_str)
      | _ \<Rightarrow> e)"

text \<open>
  \<open>BatchInverseTransform.__call__\<close>: the first batch of a loader over the inverse dataset
  (read in the calling process, as with \<open>num_workers = 0\<close>), collated by the parameter
  \<open>collate\<close>; \<open>first\<close> gives \<open>None\<close> for a loader without batches. A \<open>RuntimeError\<close> is
  raised again, with the hint added when its text speaks of unequal sizes.
\<close>

definition BatchInverseTransform_call ::
  "(nat list \<Rightarrow> 'v entry \<Rightarrow> error + 'v entry) \<Rightarrow> ('v data_item \<Rightarrow> string list option \<Rightarrow> error + 'r) \<Rightarrow>
   ('b \<Rightarrow> 'v data_item list) \<Rightarrow> ('r list \<Rightarrow> error + 'c) \<Rightarrow> batch_inverse_transform \<Rightarrow> 'b \<Rightarrow>
   string list option \<Rightarrow> error + 'c option" where
  "BatchInverseTransform_call crop inverse_fn decollate collate self data keys =
     (let inv_ds = BatchInverseDataset_init decollate data keys (bit_pad_collation_used self);
          n = min (bit_batch_size self) (length (ds_data inv_ds))
      in if n = 0 then Inr None
         else (case bind_err (get_batch crop inverse_fn inv_ds [0..<n]) collate of
                 Inl e \<Rightarrow> Inl (add_hint e)
               | Inr b \<Rightarrow> Inr (Some b)))"

text \<open>
  What undoing the padding of the keys \<open>ks\<close> means for an item \<open>d\<close>: the most recent
  record of a key; that every key has a record, an entry and a crop that succeeds; and
  the entries of the result: a key of \<open>ks\<close> holds its entry cropped to the original size
  of its most recent record, its list of records has lost that record, and all other
  entries are those of \<open>d\<close>.
\<close>

definition top_record :: "'v data_item \<Rightarrow> string \<Rightarrow> transform_record option" where
  "top_record d k =
     (case map_of d (transforms_key k) of
        Some (Transforms ts) \<Rightarrow> if ts = [] then None else Some (last ts)
      | _ \<Rightarrow> None)"

definition cropped :: "(nat list \<Rightarrow> 'v entry \<Rightarrow> error + 'v entry) \<Rightarrow> 'v data_item \<Rightarrow> string \<Rightarrow> 'v entry option" where
  "cropped crop d k =
     (case top_record d k of
        None \<Rightarrow> None
      | Some r \<Rightarrow>
          (case map_of d k of
             None \<Rightarrow> None
           | Some v \<Rightarrow> (case crop (orig_size r) v of Inl e \<Rightarrow> None | Inr v' \<Rightarrow> Some v')))"

definition undoable :: "(nat list \<Rightarrow> 'v entry \<Rightarrow> error + 'v entry) \<Rightarrow> string list \<Rightarrow> 'v data_item \<Rightarrow> bool" where
  "undoable crop ks d = list_all (\<lambda>k. cropped crop d k \<noteq> None) ks"

definition all_spatial_padd :: "string list \<Rightarrow> 'v data_item \<Rightarrow> bool" where
  "all_spatial_padd ks d =
     list_all (\<lambda>k. map_option t_class (top_record d k) = Some ''SpatialPadd'') ks"

definition undone ::
  "(nat list \<Rightarrow> 'v entry \<Rightarrow> error + 'v entry) \<Rightarrow> string list \<Rightarrow> 'v data_item \<Rightarrow> string \<Rightarrow> 'v entry option" where
  "undone crop ks d x =
     (if x \<in> set ks then cropped crop d x
      else if x \<in> transforms_key ` set ks then
        (case map_of d x of
           Some (Transforms ts) \<Rightarrow> Some (Transforms (butlast ts))
         | other \<Rightarrow> other)
      else map_of d x)"

text \<open>
  Example items: an image padded last (after a flip) and an image whose most recent
  record is the flip; a crop that returns the number of voxels of the region; an
  inverse that returns the item; a loader with pad collation.
\<close>

definition padded_item :: "nat data_item" where
  "padded_item =
     [(''image'', Value 7),
      (''image_transforms'',
       Transforms [\<lparr>t_class = ''Flipd'', orig_size = [4, 4]\<rparr>,
                   \<lparr>t_class = ''SpatialPadd'', orig_size = [2, 3]\<rparr>])]"

definition flipped_item :: "nat data_item" where
  "flipped_item =
     [(''image'', Value 7),
      (''image_transforms'', Transforms [\<lparr>t_class = ''Flipd'', orig_size = [4, 4]\<rparr>])]"

definition example_crop :: "nat list \<Rightarrow> nat entry \<Rightarrow> error + nat entry" where
  "example_crop roi v = Inr (Value (prod_list roi))"

definition example_inverse :: "nat data_item \<Rightarrow> string list option \<Rightarrow> error + nat data_item" where
  "example_inverse d ks = Inr d"

definition pad_loader :: loader where
  "pad_loader = \<lparr>batch_size = 2, num_workers = 0, collate_fn = PadListDataCollate\<rparr>"

section \<open>Bounding boxes: validity check and mode conversion\<close>

lemma col_ok: "j < ncols b \<Longrightarrow> col b j = Inr (map (\<lambda>r. r ! j) (rows b))"
  by (simp add: col_def)

lemma map2_same: "map2 h (map f xs) (map g xs) = map (\<lambda>x. h (f x) (g x)) xs"
  by (induction xs) auto

lemma lt_zero_map: "lt_zero (Inr (map f rs)) = Inr (map (\<lambda>r. f r < 0) rs)"
  by (simp add: lt_zero_def bind_err_def comp_def)

lemma lt_cols_map: "lt_cols (Inr (map f rs)) (Inr (map g rs)) = Inr (map (\<lambda>r. f r < g r) rs)"
  by (simp add: lt_cols_def bind_err_def map2_same)

lemma or_cols_map: "or_cols (Inr (map f rs)) (Inr (map g rs)) = Inr (map (\<lambda>r. f r \<or> g r) rs)"
  by (simp add: or_cols_def bind_err_def map2_same)

lemma supported_cases:
  "m \<in> set SUPPORTED_MODE \<longleftrightarrow>
     m = ''xyxy'' \<or> m = ''xyzxyz'' \<or> m = ''xxyy'' \<or> m = ''xxyyzz'' \<or>
     m = ''xywh'' \<or> m = ''xyzwhd'' \<or> m = ''ccwh'' \<or> m = ''cccwhd''"
  by (auto simp: SUPPORTED_MODE_def CORNER_CORNER_MODE_def XXYYZZ_MODE_def
        CORNER_SIZE_MODE_def CENTER_SIZE_MODE_def)

lemma get_dimension_bbox_mode:
  "get_dimension (Some b) None (Some m) =
     (if length m div 2 = ncols b div 2 then look_up_option (ncols b div 2) [2, 3]
      else Inl (ValueError ''The dimension of bbox, image_size, mode should match with each other.''))"
  by (simp add: get_dimension_def)

lemma upt_S2: "[Suc 0..<2] = [Suc 0]" by code_simp
lemma upt_S3: "[Suc 0..<3] = [Suc 0, 2]" by code_simp

lemma check_box_mode_2d:
  assumes "ncols b = 4" and "m \<in> {''xyxy'', ''xxyy'', ''xywh'', ''ccwh''}"
  shows "check_box_mode b (Some m) = Inr (\<not> (\<exists>r \<in> set (rows b). box_has_negative_size m r))"
  using assms
  apply (elim insertE emptyE)
  apply (simp_all add: check_box_mode_def mode_or_standard_def bind_err_def look_up_option_def supported_cases
      get_dimension_bbox_mode upt_S2 col_ok lt_zero_map lt_cols_map or_cols_map filter_empty_conv
      box_has_negative_size_def CORNER_SIZE_MODE_def CENTER_SIZE_MODE_def XXYYZZ_MODE_def Let_def
      atLeast0_lessThan_Suc)
  apply (auto simp: eval_nat_numeral)
  done

lemma check_box_mode_3d:
  assumes "ncols b = 6" and "m \<in> {''xyzxyz'', ''xxyyzz'', ''xyzwhd'', ''cccwhd''}"
  shows "check_box_mode b (Some m) = Inr (\<not> (\<exists>r \<in> set (rows b). box_has_negative_size m r))"
  using assms
  apply (elim insertE emptyE)
  apply (simp_all add: check_box_mode_def mode_or_standard_def bind_err_def look_up_option_def supported_cases
      get_dimension_bbox_mode upt_S3 col_ok lt_zero_map lt_cols_map or_cols_map filter_empty_conv
      box_has_negative_size_def CORNER_SIZE_MODE_def CENTER_SIZE_MODE_def XXYYZZ_MODE_def Let_def
      atLeast0_lessThan_Suc)
  apply (auto simp: eval_nat_numeral atLeast0_lessThan_Suc)
  done



















lemma atLeastLessThan_2: "{0..<2} = {0, 1::nat}" by auto
lemma atLeastLessThan_3: "{0..<3} = {0, 1, 2::nat}" by auto

lemma neg_size_2d:
  "box_has_negative_size ''xyxy'' [a, b, c, d] \<longleftrightarrow> c < a \<or> d < b"
  "box_has_negative_size ''xxyy'' [a, b, c, d] \<longleftrightarrow> b < a \<or> d < c"
  "box_has_negative_size ''xywh'' [a, b, c, d] \<longleftrightarrow> c < 0 \<or> d < 0"
  "box_has_negative_size ''ccwh'' [a, b, c, d] \<longleftrightarrow> c < 0 \<or> d < 0"
  by (auto simp: box_has_negative_size_def CORNER_SIZE_MODE_def CENTER_SIZE_MODE_def
      XXYYZZ_MODE_def Let_def atLeast0_lessThan_Suc)







lemma mode_dim_cases:
  assumes "m \<in> set SUPPORTED_MODE"
  shows "(length m = 4 \<and> m \<in> {''xyxy'', ''xxyy'', ''xywh'', ''ccwh''}) \<or>
         (length m = 6 \<and> m \<in> {''xyzxyz'', ''xxyyzz'', ''xyzwhd'', ''cccwhd''})"
  using assms unfolding supported_cases
  by (elim disjE) simp_all


lemma isl_bind_err: "isl (bind_err r f) \<longleftrightarrow> isl r \<or> (\<exists>v. r = Inr v \<and> isl (f v))"
  by (cases r) (simp_all add: bind_err_def)

lemma unsupported_check: "mode \<notin> set SUPPORTED_MODE \<Longrightarrow> isl (check_box_mode b (Some mode))"
  by (simp add: check_box_mode_def mode_or_standard_def look_up_option_def bind_err_def)

lemma unsupported_src:
  "mode \<notin> set SUPPORTED_MODE \<Longrightarrow> isl (box_convert_mode s a (Some mode) dst_mode)"
  using unsupported_check [of mode "s ! a"]
  by (simp add: box_convert_mode_def isl_bind_err)

lemma unsupported_dst:
  assumes "mode \<notin> set SUPPORTED_MODE"
  shows "isl (box_convert_mode s a src_mode (Some mode))"
proof (cases "check_box_mode (s ! a) src_mode")
  case (Inl e)
  then show ?thesis by (simp add: box_convert_mode_def bind_err_def)
next
  case (Inr ok)
  show ?thesis
  proof (cases "mode_or_standard (s ! a) src_mode")
    case (Inl e)
    with Inr show ?thesis by (simp add: box_convert_mode_def bind_err_def)
  next
    case src0: (Inr src0)
    show ?thesis
    proof (cases "look_up_option src0 SUPPORTED_MODE")
      case (Inl e)
      with Inr src0 show ?thesis
        by (simp add: box_convert_mode_def bind_err_def mode_or_standard_def)
    next
      case src: (Inr src)
      with Inr src0 assms show ?thesis
        by (simp add: box_convert_mode_def bind_err_def mode_or_standard_def look_up_option_def)
    qed
  qed
qed





text \<open>
  Claim C5, as amended. For a box array of shape \<open>N\<times>4\<close> or \<open>N\<times>6\<close>: with a mode string that is
  not one of the eight entries of \<open>SUPPORTED_MODE\<close>, \<open>check_box_mode\<close> raises, and so does
  \<open>box_convert_mode\<close> whether the string is given as source or as destination mode. With a
  supported mode whose length equals the number of columns (a 2-D mode for \<open>N\<times>4\<close>, a 3-D
  mode for \<open>N\<times>6\<close>), \<open>check_box_mode\<close> returns \<open>False\<close> exactly when some box has negative
  size under that mode's encoding and \<open>True\<close> otherwise. With a supported mode of the other
  dimension it raises \<open>ValueError\<close>.
\<close>

theorem check_box_mode_supported_modes:
  assumes "wf_tensor2d (s ! a)" and "ncols (s ! a) = 4 \<or> ncols (s ! a) = 6"
  shows "(mode \<notin> set SUPPORTED_MODE \<longrightarrow>
            isl (check_box_mode (s ! a) (Some mode)) \<and>
            isl (box_convert_mode s a (Some mode) dst_mode) \<and>
            isl (box_convert_mode s a src_mode (Some mode))) \<and>
         (mode \<in> set SUPPORTED_MODE \<and> length mode = ncols (s ! a) \<longrightarrow>
            check_box_mode (s ! a) (Some mode) =
              Inr (\<not> (\<exists>box \<in> set (rows (s ! a)). box_has_negative_size mode box))) \<and>
         (mode \<in> set SUPPORTED_MODE \<and> length mode \<noteq> ncols (s ! a) \<longrightarrow>
            is_ValueError (check_box_mode (s ! a) (Some mode)))"
proof (intro conjI impI)
  assume "mode \<notin> set SUPPORTED_MODE"
  then show "isl (check_box_mode (s ! a) (Some mode))"
    and "isl (box_convert_mode s a (Some mode) dst_mode)"
    and "isl (box_convert_mode s a src_mode (Some mode))"
    by (rule unsupported_check unsupported_src unsupported_dst)+
next
  assume h: "mode \<in> set SUPPORTED_MODE \<and> length mode = ncols (s ! a)"
  from assms(2) show "check_box_mode (s ! a) (Some mode) =
      Inr (\<not> (\<exists>box \<in> set (rows (s ! a)). box_has_negative_size mode box))"
  proof
    assume n: "ncols (s ! a) = 4"
    then have "mode \<in> {''xyxy'', ''xxyy'', ''xywh'', ''ccwh''}"
      using h mode_dim_cases [of mode] by simp
    then show ?thesis by (rule check_box_mode_2d [OF n])
  next
    assume n: "ncols (s ! a) = 6"
    then have "mode \<in> {''xyzxyz'', ''xxyyzz'', ''xyzwhd'', ''cccwhd''}"
      using h mode_dim_cases [of mode] by simp
    then show ?thesis by (rule check_box_mode_3d [OF n])
  qed
next
  assume h: "mode \<in> set SUPPORTED_MODE \<and> length mode \<noteq> ncols (s ! a)"
  have "length mode = 4 \<or> length mode = 6"
    using h mode_dim_cases [of mode] by blast
  then have "length mode div 2 \<noteq> ncols (s ! a) div 2"
    using h assms(2) by auto
  then show "is_ValueError (check_box_mode (s ! a) (Some mode))"
    using h
    by (simp add: check_box_mode_def mode_or_standard_def look_up_option_def bind_err_def
        get_dimension_bbox_mode is_ValueError_def)
qed

theorem check_box_mode_supported_modes_witness:
  "wf_tensor2d ([\<lparr>ncols = 4, rows = [[0, 0, 1, 1], [0, 0, - 1, 1]]\<rparr>] ! 0) \<and>
   ''abcd'' \<notin> set SUPPORTED_MODE \<and>
   isl (check_box_mode \<lparr>ncols = 4, rows = [[0, 0, 1, 1], [0, 0, - 1, 1]]\<rparr> (Some ''abcd'')) \<and>
   isl (box_convert_mode [\<lparr>ncols = 4, rows = [[0, 0, 1, 1], [0, 0, - 1, 1]]\<rparr>] 0
          (Some ''abcd'') None) \<and>
   isl (box_convert_mode [\<lparr>ncols = 4, rows = [[0, 0, 1, 1], [0, 0, - 1, 1]]\<rparr>] 0
          None (Some ''abcd'')) \<and>
   ''xyxy'' \<in> set SUPPORTED_MODE \<and>
   check_box_mode \<lparr>ncols = 4, rows = [[0, 0, 1, 1], [0, 0, - 1, 1]]\<rparr> (Some ''xyxy'') = Inr False \<and>
   ''xyzxyz'' \<in> set SUPPORTED_MODE \<and>
   is_ValueError
     (check_box_mode \<lparr>ncols = 4, rows = [[0, 0, 1, 1], [0, 0, - 1, 1]]\<rparr> (Some ''xyzxyz''))"
proof -
  let ?B = "\<lparr>ncols = 4, rows = [[0, 0, 1, 1], [0, 0, - 1, 1]]\<rparr>"
  have h1: "wf_tensor2d ([?B] ! 0)"
    by (simp add: wf_tensor2d_def)
  have h2: "ncols ([?B] ! 0) = 4 \<or> ncols ([?B] ! 0) = 6"
    by simp
  have m: "''abcd'' \<notin> set SUPPORTED_MODE" "''xyxy'' \<in> set SUPPORTED_MODE"
    "''xyzxyz'' \<in> set SUPPORTED_MODE"
    by (simp_all add: supported_cases)
  show ?thesis
    using h1 m
      check_box_mode_supported_modes [OF h1 h2, of "''abcd''" None None]
      check_box_mode_supported_modes [OF h1 h2, of "''xyxy''" None None]
      check_box_mode_supported_modes [OF h1 h2, of "''xyzxyz''" None None]
    by (simp add: neg_size_2d)
qed

text \<open>
  Claim C5 as stated fails: \<open>xyxy\<close> is a supported mode, yet on an \<open>N\<times>6\<close> array
  \<open>check_box_mode\<close> returns neither \<open>True\<close> nor \<open>False\<close> but raises, because
  \<open>get_dimension\<close> compares the dimension of the mode with that of the array.
\<close>

theorem check_box_mode_dimension_mismatch_counterexample:
  "''xyxy'' \<in> set SUPPORTED_MODE \<and>
   check_box_mode \<lparr>ncols = 6, rows = [[0, 0, 0, 1, 1, 1]]\<rparr> (Some ''xyxy'') =
     Inl (ValueError ''The dimension of bbox, image_size, mode should match with each other.'')"
  by (simp add: supported_cases check_box_mode_def mode_or_standard_def look_up_option_def
      bind_err_def get_dimension_bbox_mode)





section \<open>MedNIST: sections and the random split\<close>











lemma empty_world_simps:
  "isdir empty_world ''data''"
  "path_exists empty_world ''data/MedNIST''"
  "list_images empty_world ''data/MedNIST'' = Inr ([], [])"
  by (simp_all add: empty_world_def list_images_def class_names_of_def listdir_def bind_err_def)

text \<open>
  Claim C6 fails on the code: the test of the section is inside the loop over the image
  files, so with an existing dataset directory that holds no class folder the
  constructor raises nothing for the section \<open>foo\<close> and returns an empty dataset.
\<close>

theorem mednist_unsupported_section_empty_dir:
  "MedNISTDataset_init no_download example_gen empty_world ''data'' ''foo'' False 0
     (1 / 10) (1 / 10) = ([], Inr [])"
  by (simp add: MedNISTDataset_init_def generate_data_list_def empty_world_simps bind_err_def
      new_mednist_def Let_def dataset_folder_name_def path_join_def)

text \<open>With at least one image file the unsupported section is reported by a \<open>ValueError\<close>.\<close>

lemma generate_data_list_unsupported_section:
  assumes "sec \<notin> {''training'', ''validation'', ''test''}"
    and "list_images w dataset_dir = Inr (image_files_list, image_class)"
    and "image_class \<noteq> []"
  shows "generate_data_list w (new_mednist gen sec seed val_frac test_frac) dataset_dir =
           Inl (unsupported_section sec)"
proof -
  have "0 < length image_class"
    using assms(3) by simp
  then have "[0..<length image_class] = 0 # [Suc 0..<length image_class]"
    by (rule upt_conv_Cons)
  then show ?thesis
    using assms(1,2)
    by (simp add: generate_data_list_def bind_err_def new_mednist_def Let_def randomize_def
        R_random_def)
qed

text \<open>The flattened file list and class list of a listing have the same length.\<close>

lemma image_files_of_length:
  "image_files_of w dataset_dir cs = Inr fs \<Longrightarrow> length fs = length cs"
  by (induction cs arbitrary: fs) (auto simp: bind_err_def split: sum.splits)

lemma list_images_lengths:
  assumes "list_images w dataset_dir = Inr (image_files_list, image_class)"
  shows "length image_files_list = length image_class"
proof -
  from assms obtain cs fs where cs: "class_names_of w dataset_dir = Inr cs"
    and fs: "image_files_of w dataset_dir cs = Inr fs"
    and fl: "image_files_list = concat (map (\<lambda>i. fs ! i) [0..<length cs])"
    and cl: "image_class =
       concat (map (\<lambda>i. replicate (map (\<lambda>i. length (fs ! i)) [0..<length cs] ! i) i) [0..<length cs])"
    by (auto simp: list_images_def bind_err_def Let_def split: sum.splits)
  define num where "num = map (\<lambda>i. length (fs ! i)) [0..<length cs]"
  have n: "length num = length cs"
    by (simp add: num_def)
  have "length image_class = sum_list (map (\<lambda>i. num ! i) [0..<length cs])"
    unfolding cl num_def [symmetric] by (simp add: length_concat comp_def)
  also have "map (\<lambda>i. num ! i) [0..<length cs] = num"
    using map_nth [of num] by (simp only: n)
  also have "sum_list num = length image_files_list"
    unfolding fl num_def by (simp add: length_concat comp_def)
  finally show ?thesis
    by simp
qed


section \<open>Downloads and their checksums\<close>





section \<open>Launching the training script\<close>

declare str_nat.simps [simp del]

lemma str_int_1: "str_int 1 = ''1''"
  by (simp add: str_int_def digit_char_def str_nat.simps [of 1] str_nat.simps [of "Suc 0"])






lemma train_launch:
  "device_settings dc params = Inr (n, ds, ps) \<Longrightarrow>
     train run fmt dc env (Some out) (Some params) =
       ([(py_split (train_cmd out n ps), train_environ env ds)],
        check_returncode fmt (run (py_split (train_cmd out n ps)) (train_environ env ds)))"
  by (simp add: train_def Let_def train_cmd_def train_environ_def check_returncode_def str_int_1)




text \<open>
  Claim C4 fails on the code for the default argument: with \<open>train_params=None\<close> the
  local variable \<open>params\<close> is never bound, so \<open>train\<close> raises \<open>UnboundLocalError\<close> at
  the test for \<open>CUDA_VISIBLE_DEVICES\<close> and builds and launches no command at all.
\<close>

theorem train_default_params_unbound:
  "train run fmt device_count os_environ (Some out) None = ([], Inl (UnboundLocalError ''params''))"
  by (simp add: train_def Let_def)

text \<open>
  With a dictionary as \<open>train_params\<close> the command is as the claim describes: the number
  of devices and the device string come from the popped entry \<open>CUDA_VISIBLE_DEVICES\<close> or
  from the CUDA device count, the command line is \<open>train_cmd\<close> on the remaining
  parameters, which no longer hold the device list, and the device string reaches the
  process through the environment.
\<close>

lemma map_of_filter_neq: "map_of (filter (\<lambda>(k, v). k \<noteq> key) ps) key = None"
  by (induction ps) auto

lemma device_settings_pops:
  assumes "device_settings dc params = Inr (n, ds, ps)"
  shows "map_of ps ''CUDA_VISIBLE_DEVICES'' = None"
  using assms
  by (auto simp: device_settings_def bind_err_def map_of_filter_neq
      split: option.splits sum.splits)

lemma train_launch_command:
  assumes "device_settings dc params = Inr (n, ds, ps)"
  shows "fst (train run fmt dc env (Some out) (Some params)) =
           [(py_split (train_cmd out n ps), train_environ env ds)] \<and>
         map_of ps ''CUDA_VISIBLE_DEVICES'' = None \<and>
         (case map_of params ''CUDA_VISIBLE_DEVICES'' of
            None \<Rightarrow> n = dc \<and> ds = [] \<and> ps = params
          | Some devices \<Rightarrow> devices_info devices = Inr (n, ds))"
  using assms device_settings_pops [OF assms]
  by (auto simp: train_launch device_settings_def bind_err_def split: option.splits sum.splits)

text \<open>Two launches written out: two devices given in \<open>train_params\<close>, and no parameters on one device.\<close>

lemma train_two_devices_example:
  "map fst (fst (train ok_run (\<lambda>s. s) 1 Map.empty (Some ''work'')
         (Some [(''CUDA_VISIBLE_DEVICES'', PInts [0, 1]), (''num_epochs'', PInt 2)]))) =
     [[''torchrun'', ''--nnodes=1'', ''--nproc_per_node=2'', ''work/scripts/train.py'', ''run'',
       ''--config_file=work/configs/algo_config.yaml'', ''--num_epochs=2'']]"
  "map (\<lambda>(argv, e). e ''CUDA_VISIBLE_DEVICES'')
     (fst (train ok_run (\<lambda>s. s) 1 Map.empty (Some ''work'')
         (Some [(''CUDA_VISIBLE_DEVICES'', PInts [0, 1]), (''num_epochs'', PInt 2)]))) =
     [Some ''0,1'']"
  "map fst (fst (train ok_run (\<lambda>s. s) 1 Map.empty (Some ''work'') (Some []))) =
     [[''python'', ''work/scripts/train.py'', ''run'',
       ''--config_file=work/configs/algo_config.yaml'']]"
  by code_simp+


section \<open>Tumor FROC evaluation: the coordinates passed on\<close>

lemma fp_tp_loop_calls:
  "snd (fp_tp_loop nms gt f data totals calls) =
     calls @ map (\<lambda>s. \<lparr>probs = fst (prepare_inference_result nms s),
                       y_coord = fst (snd (prepare_inference_result nms s)),
                       x_coord = snd (snd (prepare_inference_result nms s)),
                       evaluation_mask = fst (gt s), labels_to_exclude = snd (gt s),
                       resolution_level = level s\<rparr>) data"
proof (induction data arbitrary: totals calls)
  case Nil
  then show ?case by simp
next
  case (Cons s rest)
  obtain fp tp n where totals: "totals = (fp, tp, n)"
    by (cases totals) auto
  show ?case
    unfolding totals
    by (simp add: Cons.IH Let_def split: prod.split)
qed

text \<open>
  Claim C7 fails on the code: \<open>prepare_inference_result\<close> returns
  \<open>(probs, x_coord, y_coord)\<close> and \<open>compute_fp_tp\<close> unpacks the triple as
  \<open>probs, y_coord, x_coord\<close>. For the detection \<open>[0.9, 1, 2]\<close> the x-coordinates are \<open>[1]\<close>
  and the y-coordinates \<open>[2]\<close>, and the call of \<open>compute_fp_tp_probs\<close> receives
  \<open>y_coord = [1]\<close> and \<open>x_coord = [2]\<close>.
\<close>

theorem compute_fp_tp_swaps_coordinates:
  "prepare_inference_result example_nms example_sample = ([9 / 10], [1], [2]) \<and>
   map (\<lambda>c. (x_coord c, y_coord c))
     (snd (compute_fp_tp example_nms example_ground_truth example_fp_tp_probs [example_sample])) =
     [([2], [1])]"
  by (simp add: compute_fp_tp_def prepare_inference_result_def example_nms_def
      example_ground_truth_def example_fp_tp_probs_def Let_def)

text \<open>
  In general every call receives as \<open>y_coord\<close> the second component of
  \<open>prepare_inference_result\<close> (its x-coordinates) and as \<open>x_coord\<close> the third one.
\<close>

lemma compute_fp_tp_calls:
  "map (\<lambda>c. (y_coord c, x_coord c)) (snd (compute_fp_tp nms gt f data)) =
     map (\<lambda>s. (fst (snd (prepare_inference_result nms s)),
               snd (snd (prepare_inference_result nms s)))) data"
proof -
  obtain totals calls where l: "fp_tp_loop nms gt f data ([], [], 0) [] = (totals, calls)"
    by (cases "fp_tp_loop nms gt f data ([], [], 0) []") auto
  obtain fp tp n where t: "totals = (fp, tp, n)"
    by (cases totals) auto
  have "snd (compute_fp_tp nms gt f data) = calls"
    by (simp add: compute_fp_tp_def Let_def l t)
  moreover have "calls = snd (fp_tp_loop nms gt f data ([], [], 0) [])"
    by (simp add: l)
  ultimately show ?thesis
    by (simp add: fp_tp_loop_calls comp_def)
qed

text \<open>
  The other half of claim C7 holds: the result holds the false-positive and the
  true-positive probabilities of all calls, concatenated in the order of the samples, the
  total number of targets and the number of images.
\<close>

lemma fp_tp_loop_totals:
  "fst (fp_tp_loop nms gt f data (fp, tp, n) calls) =
     (fp @ concat (map (\<lambda>c. fst (f c)) (drop (length calls) (snd (fp_tp_loop nms gt f data (fp, tp, n) calls)))),
      tp @ concat (map (\<lambda>c. fst (snd (f c))) (drop (length calls) (snd (fp_tp_loop nms gt f data (fp, tp, n) calls)))),
      n + sum_list (map (\<lambda>c. snd (snd (f c))) (drop (length calls) (snd (fp_tp_loop nms gt f data (fp, tp, n) calls)))))"
proof (induction data arbitrary: fp tp n calls)
  case Nil
  then show ?case by simp
next
  case (Cons s rest)
  show ?case
    apply (simp add: Let_def split: prod.split)
    apply (intro allI impI)
    apply (subst Cons.IH)
    apply (simp add: fp_tp_loop_calls)
    done
qed

lemma compute_fp_tp_result:
  "fst (compute_fp_tp nms gt f data) =
     (concat (map (\<lambda>c. fst (f c)) (snd (compute_fp_tp nms gt f data))),
      concat (map (\<lambda>c. fst (snd (f c))) (snd (compute_fp_tp nms gt f data))),
      sum_list (map (\<lambda>c. snd (snd (f c))) (snd (compute_fp_tp nms gt f data))),
      length data)"
proof -
  obtain totals calls where l: "fp_tp_loop nms gt f data ([], [], 0) [] = (totals, calls)"
    by (cases "fp_tp_loop nms gt f data ([], [], 0) []") auto
  obtain fp tp n where t: "totals = (fp, tp, n)"
    by (cases totals) auto
  have c: "compute_fp_tp nms gt f data = ((fp, tp, n, length data), calls)"
    by (simp add: compute_fp_tp_def Let_def l t)
  from fp_tp_loop_totals [of nms gt f data "[]" "[]" 0 "[]"] l t
  show ?thesis
    by (simp add: c)
qed


section \<open>True and false positives: the two branches for \<open>ord = 1\<close>\<close>

lemma bshape_rev_same: "bshape_rev xs xs = Some xs"
  by (induction xs) auto

lemma broadcast_same: "broadcast_shapes s s = Some s"
  by (simp add: broadcast_shapes_def bshape_rev_same)

lemma bidx_valid: "valid_index s idx \<Longrightarrow> bidx s idx = idx"
  unfolding valid_index_def bidx_def
proof (induction idx s rule: list_all2_induct)
  case Nil
  then show ?case by simp
next
  case (Cons i idx n s)
  then have "length idx = length s"
    by (simp add: list_all2_lengthD)
  with Cons show ?case by auto
qed

lemma mk_tensor_cong:
  "(\<And>idx. valid_index s idx \<Longrightarrow> f idx = g idx) \<Longrightarrow> mk_tensor s f = mk_tensor s g"
  by (auto simp: mk_tensor_def)

lemma mk_tensor_simps:
  "shape (mk_tensor s f) = s"
  "valid_index s idx \<Longrightarrow> elem (mk_tensor s f) idx = f idx"
  by (simp_all add: mk_tensor_def)

lemma binop_same_shape:
  assumes "shape a = shape b"
  shows "binop f a b = Inr (mk_tensor (shape a) (\<lambda>idx. f (elem a idx) (elem b idx)))"
proof -
  have "mk_tensor (shape a) (\<lambda>idx. f (elem a (bidx (shape a) idx)) (elem b (bidx (shape a) idx))) =
        mk_tensor (shape a) (\<lambda>idx. f (elem a idx) (elem b idx))"
    by (rule mk_tensor_cong) (simp add: bidx_valid)
  then show ?thesis
    using assms by (simp add: binop_def broadcast_same)
qed

lemma full_indices_valid:
  "valid_index (kept_shape p s R) j \<Longrightarrow> idx \<in> set (full_indices p s R j) \<Longrightarrow> valid_index s idx"
proof (induction s arbitrary: p j idx)
  case Nil
  then show ?case by (simp add: valid_index_def)
next
  case (Cons n s)
  show ?case
  proof (cases "p \<in> set R")
    case True
    with Cons.prems obtain i rest where "idx = i # rest" "i < n"
      "rest \<in> set (full_indices (Suc p) s R j)"
      by auto
    moreover have "valid_index (kept_shape (Suc p) s R) j"
      using Cons.prems(1) True by simp
    ultimately show ?thesis
      using Cons.IH [of "Suc p" j rest] by (simp add: valid_index_def)
  next
    case False
    with Cons.prems obtain i j' where j: "j = i # j'" "i < n"
      "valid_index (kept_shape (Suc p) s R) j'"
      by (cases j) (auto simp: valid_index_def)
    with Cons.prems False obtain rest where "idx = i # rest"
      "rest \<in> set (full_indices (Suc p) s R j')"
      by auto
    with j show ?thesis
      using Cons.IH [of "Suc p" j' rest] by (simp add: valid_index_def)
  qed
qed

lemma sum_over_cong:
  assumes "\<And>idx. valid_index s idx \<Longrightarrow> f idx = g idx"
  shows "sum_over s R f = sum_over s R g"
  unfolding sum_over_def
proof (rule mk_tensor_cong)
  fix j
  assume v: "valid_index (kept_shape 0 s R) j"
  have "f idx = g idx" if "idx \<in> set (full_indices 0 s R j)" for idx
    using assms full_indices_valid [OF v that] by simp
  then have "map f (full_indices 0 s R j) = map g (full_indices 0 s R j)"
    by (intro map_cong refl)
  then show "sum_list (map f (full_indices 0 s R j)) = sum_list (map g (full_indices 0 s R j))"
    by (simp only:)
qed

lemma sum_over_diff:
  "tsub (sum_over s R f) (sum_over s R g) = Inr (sum_over s R (\<lambda>idx. f idx - g idx))"
proof -
  have sh: "shape (sum_over s R f) = shape (sum_over s R g)"
    by (simp add: sum_over_def mk_tensor_simps)
  have "mk_tensor (kept_shape 0 s R)
          (\<lambda>j. elem (sum_over s R f) j - elem (sum_over s R g) j) =
        sum_over s R (\<lambda>idx. f idx - g idx)"
    unfolding sum_over_def
    by (rule mk_tensor_cong) (simp add: mk_tensor_simps sum_list_subtractf)
  then show ?thesis
    unfolding tsub_def binop_same_shape [OF sh]
    by (simp add: sum_over_def mk_tensor_simps)
qed

lemma tsum_same_rank:
  "tsum t dims =
     bind_err (norm_dims (length (shape t)) dims) (\<lambda>R0.
       Inr (sum_over (shape t) (if R0 = [] then [0..<length (shape t)] else R0) (elem t)))"
  by (simp add: tsum_def Let_def)

text \<open>
  Claim C9, as amended. In exact arithmetic, for input and target tensors of the same
  shape and every \<open>reduce_axis\<close>, with \<open>ord = 1\<close> and \<open>soft_label = False\<close>, the result
  with \<open>decoupled = True\<close> equals the result with \<open>decoupled = False\<close>; it is a triple
  \<open>(tp, fp, fn)\<close> whenever \<open>reduce_axis\<close> is a valid list of dimensions.
\<close>

theorem compute_tp_fp_fn_decoupled_same:
  assumes "shape input = shape target"
  shows "compute_tp_fp_fn vector_norm tpow input target reduce_axis 1 False True =
         compute_tp_fp_fn vector_norm tpow input target reduce_axis 1 False False \<and>
         (\<not> isl (norm_dims (length (shape input)) reduce_axis) \<longrightarrow>
            \<not> isl (compute_tp_fp_fn vector_norm tpow input target reduce_axis 1 False True))"
proof -
  let ?s = "shape input"
  let ?a = "elem input" and ?t = "elem target"
  define it where "it = mk_tensor ?s (\<lambda>idx. ?a idx * ?t idx)"
  define na where "na = mk_tensor ?s (\<lambda>idx. ?a idx * elem (rsub 1 target) idx)"
  define nb where "nb = mk_tensor ?s (\<lambda>idx. elem (rsub 1 input) idx * ?t idx)"
  have m1: "tmul input target = Inr it"
    using assms by (simp add: tmul_def binop_same_shape it_def)
  have m2: "tmul input (rsub 1 target) = Inr na"
    using assms by (simp add: tmul_def binop_same_shape na_def rsub_def mk_tensor_simps)
  have m3: "tmul (rsub 1 input) target = Inr nb"
    using assms by (simp add: tmul_def binop_same_shape nb_def rsub_def mk_tensor_simps)
  have sh: "shape it = ?s" "shape na = ?s" "shape nb = ?s" "shape target = ?s"
    using assms by (simp_all add: it_def na_def nb_def mk_tensor_simps)
  show ?thesis
  proof (cases "norm_dims (length ?s) reduce_axis")
    case (Inl e)
    then show ?thesis
      by (simp add: compute_tp_fp_fn_def m1 bind_err_def tsum_same_rank sh)
  next
    case (Inr R0)
    define R where "R = (if R0 = [] then [0..<length ?s] else R0)"
    have ts: "tsum it reduce_axis = Inr (sum_over ?s R (elem it))"
      "tsum input reduce_axis = Inr (sum_over ?s R ?a)"
      "tsum target reduce_axis = Inr (sum_over ?s R ?t)"
      "tsum na reduce_axis = Inr (sum_over ?s R (elem na))"
      "tsum nb reduce_axis = Inr (sum_over ?s R (elem nb))"
      using Inr by (simp_all add: tsum_same_rank sh bind_err_def R_def)
    have fp: "sum_over ?s R (\<lambda>idx. ?a idx - elem it idx) = sum_over ?s R (elem na)"
      by (rule sum_over_cong)
        (simp add: it_def na_def rsub_def mk_tensor_simps assms [symmetric] algebra_simps)
    have fn: "sum_over ?s R (\<lambda>idx. ?t idx - elem it idx) = sum_over ?s R (elem nb)"
      by (rule sum_over_cong)
        (simp add: it_def nb_def rsub_def mk_tensor_simps algebra_simps)
    show ?thesis
      by (simp add: compute_tp_fp_fn_def m1 m2 m3 ts bind_err_def sum_over_diff fp fn)
  qed
qed

theorem compute_tp_fp_fn_decoupled_same_witness:
  "shape ones2 = shape ones2 \<and>
   compute_tp_fp_fn no_vector_norm no_tpow ones2 ones2 [0] 1 False True =
   compute_tp_fp_fn no_vector_norm no_tpow ones2 ones2 [0] 1 False False \<and>
   \<not> isl (compute_tp_fp_fn no_vector_norm no_tpow ones2 ones2 [0] 1 False True)"
proof -
  have h: "shape ones2 = shape ones2" by simp
  have n: "\<not> isl (norm_dims (length (shape ones2)) [0])"
    by (simp add: ones2_def mk_tensor_def bind_err_def Let_def)
  note T = compute_tp_fp_fn_decoupled_same [OF h, of no_vector_norm no_tpow "[0]"]
  from h T [THEN conjunct1] T [THEN conjunct2, THEN mp, OF n] show ?thesis
    by (intro conjI)
qed

text \<open>
  Claim C9 as stated fails when the shapes differ and broadcasting applies: for the input
  \<open>[1, 1]\<close> and the target \<open>[1]\<close>, reduced over dimension 0, the decoupled branch gives
  \<open>fn = sum(target) - tp = 1 - 2\<close> and the other branch \<open>fn = sum((1 - input) * target) = 0\<close>.
\<close>

lemma example_broadcast_decoupled:
  "map_sum id (\<lambda>(tp, fp, fn). elem fn [])
     (compute_tp_fp_fn no_vector_norm no_tpow ones2 ones1 [0] 1 False True) = Inr (- 1)"
  by code_simp

lemma example_broadcast_coupled:
  "map_sum id (\<lambda>(tp, fp, fn). elem fn [])
     (compute_tp_fp_fn no_vector_norm no_tpow ones2 ones1 [0] 1 False False) = Inr 0"
  by code_simp

theorem compute_tp_fp_fn_broadcast_counterexample:
  "compute_tp_fp_fn no_vector_norm no_tpow ones2 ones1 [0] 1 False True \<noteq>
   compute_tp_fp_fn no_vector_norm no_tpow ones2 ones1 [0] 1 False False"
proof
  assume "compute_tp_fp_fn no_vector_norm no_tpow ones2 ones1 [0] 1 False True =
          compute_tp_fp_fn no_vector_norm no_tpow ones2 ones1 [0] 1 False False"
  then have "(Inr (- 1) :: error + rat) = Inr 0"
    using example_broadcast_decoupled example_broadcast_coupled by simp
  then show False by simp
qed


section \<open>Batch inverse transform: undoing the padding\<close>

lemma map_of_dict_set: "map_of (dict_set k v d) = (map_of d)(k \<mapsto> v)"
  by (induction d) (auto simp: fun_eq_iff)

lemma keys_dict_set: "k \<in> fst ` set d \<Longrightarrow> map fst (dict_set k v d) = map fst d"
  by (induction d) (fastforce simp: image_iff)+

lemma transforms_key_inj: "transforms_key a = transforms_key b \<longleftrightarrow> a = b"
  by (simp add: transforms_key_def)

lemma undoable_Cons:
  "undoable crop (k # ks) d \<longleftrightarrow> cropped crop d k \<noteq> None \<and> undoable crop ks d"
  by (simp add: undoable_def)

lemma cropped_SomeD:
  assumes "cropped crop d k \<noteq> None"
  obtains ts v v' where "map_of d (transforms_key k) = Some (Transforms ts)" "ts \<noteq> []"
    "top_record d k = Some (last ts)" "map_of d k = Some v"
    "crop (orig_size (last ts)) v = Inr v'" "cropped crop d k = Some v'"
  using assms
  by (auto simp: cropped_def top_record_def split: option.splits entry.splits if_splits sum.splits)

text \<open>One step of the loop leaves the records and entries of the other keys alone.\<close>

lemma step_preserves:
  assumes "k' \<noteq> k" and "k' \<noteq> transforms_key k" and "transforms_key k' \<noteq> k"
  shows "top_record (dict_set k v' (dict_set (transforms_key k) e d)) k' = top_record d k'"
    and "cropped crop (dict_set k v' (dict_set (transforms_key k) e d)) k' = cropped crop d k'"
  using assms
  by (simp_all add: top_record_def cropped_def map_of_dict_set transforms_key_inj
      cong: option.case_cong)


lemma all_spatial_padd_Cons:
  "all_spatial_padd (k # ks) d \<longleftrightarrow>
     map_option t_class (top_record d k) = Some ''SpatialPadd'' \<and> all_spatial_padd ks d"
  by (simp add: all_spatial_padd_def)

text \<open>
  The loop over the keys: either every most recent record is a \<open>SpatialPadd\<close> record and
  the loop returns the item with the padding undone, or it raises the \<open>RuntimeError\<close> that
  names the class of the first other record.
\<close>

lemma undo_pad_spec:
  assumes "distinct ks" and "set ks \<inter> transforms_key ` set ks = {}" and "undoable crop ks d"
  shows "if all_spatial_padd ks d
         then \<exists>d'. undo_pad crop ks d = Inr d' \<and> map fst d' = map fst d \<and>
                   (\<forall>x. map_of d' x = undone crop ks d x)
         else \<exists>k r. k \<in> set ks \<and> top_record d k = Some r \<and> t_class r \<noteq> ''SpatialPadd'' \<and>
                    undo_pad crop ks d = Inl (expected_padd (t_class r))"
  using assms
proof (induction ks arbitrary: d)
  case Nil
  then show ?case
    by (simp add: all_spatial_padd_def undone_def)
next
  case (Cons k ks)
  let ?tk = "transforms_key k"
  from Cons.prems(3) have c: "cropped crop d k \<noteq> None" and u: "undoable crop ks d"
    by (simp_all add: undoable_Cons)
  from c obtain ts v v' where
    ts: "map_of d ?tk = Some (Transforms ts)" "ts \<noteq> []" "top_record d k = Some (last ts)"
    and v: "map_of d k = Some v" "crop (orig_size (last ts)) v = Inr v'"
      "cropped crop d k = Some v'"
    by (rule cropped_SomeD)
  have ne: "?tk \<noteq> k"
    by (simp add: transforms_key_def)
  show ?case
  proof (cases "t_class (last ts) = ''SpatialPadd''")
    case False
    then have "\<not> all_spatial_padd (k # ks) d"
      by (simp add: all_spatial_padd_Cons ts)
    moreover have "undo_pad crop (k # ks) d = Inl (expected_padd (t_class (last ts)))"
      using False ts by (simp add: Let_def)
    ultimately show ?thesis
      using ts(3) False by auto
  next
    case True
    define d1 where "d1 = dict_set ?tk (Transforms (butlast ts)) d"
    define d2 where "d2 = dict_set k v' d1"
    have m1: "map_of d1 k = Some v"
      using v(1) ne by (simp add: d1_def map_of_dict_set)
    have step: "undo_pad crop (k # ks) d = undo_pad crop ks d2"
      using True ts v(2) m1 by (simp add: Let_def d1_def [symmetric] d2_def bind_err_def)
    have m2: "map_of d2 = (map_of d)(?tk \<mapsto> Transforms (butlast ts), k \<mapsto> v')"
      by (simp add: d2_def d1_def map_of_dict_set)
    have keys: "map fst d2 = map fst d"
    proof -
      have "?tk \<in> fst ` set d"
        using ts(1) by (metis map_of_eq_None_iff option.distinct(1))
      then have k1: "map fst d1 = map fst d"
        by (simp add: d1_def keys_dict_set)
      have "k \<in> fst ` set d1"
        using m1 by (metis map_of_eq_None_iff option.distinct(1))
      then show ?thesis
        by (simp add: d2_def keys_dict_set k1)
    qed
    have out: "k \<notin> set ks" "?tk \<notin> set ks" "k \<notin> transforms_key ` set ks"
      "?tk \<notin> transforms_key ` set ks" "?tk \<notin> set (k # ks)"
      using Cons.prems(1,2) by (auto simp: transforms_key_inj)
    have pres: "top_record d2 k' = top_record d k' \<and> cropped crop d2 k' = cropped crop d k'"
      if "k' \<in> set ks" for k'
    proof -
      have "k' \<noteq> k" "k' \<noteq> ?tk" "transforms_key k' \<noteq> k"
        using that out by auto
      then show ?thesis
        unfolding d2_def d1_def by (simp add: step_preserves)
    qed
    have u2: "undoable crop ks d2"
      using u pres by (simp add: undoable_def list_all_iff)
    have a2: "all_spatial_padd ks d2 = all_spatial_padd ks d"
      using pres by (simp add: all_spatial_padd_def list_all_iff)
    have dis: "distinct ks" "set ks \<inter> transforms_key ` set ks = {}"
      using Cons.prems(1,2) by auto
    note IH = Cons.IH [OF dis u2]
    have a: "all_spatial_padd (k # ks) d = all_spatial_padd ks d"
      using True ts(3) by (simp add: all_spatial_padd_Cons)
    show ?thesis
    proof (cases "all_spatial_padd ks d")
      case all: True
      with IH a2 obtain d' where d': "undo_pad crop ks d2 = Inr d'" "map fst d' = map fst d2"
        "\<And>x. map_of d' x = undone crop ks d2 x"
        by auto
      have "undone crop ks d2 x = undone crop (k # ks) d x" for x
      proof -
        consider "x = k" | "x = ?tk" | "x \<in> set ks" | "x \<notin> set (k # ks)" "x \<noteq> ?tk"
          by auto
        then show ?thesis
        proof cases
          case 1
          then show ?thesis using out v(3) by (simp add: undone_def m2)
        next
          case 2
          then show ?thesis using out ts(1) ne by (simp add: undone_def m2)
        next
          case 3
          then show ?thesis using pres [OF 3] by (simp add: undone_def)
        next
          case 4
          then have "map_of d2 x = map_of d x"
            by (simp add: m2)
          moreover have "x \<in> transforms_key ` set ks \<longleftrightarrow> x \<in> transforms_key ` set (k # ks)"
            using 4 by auto
          ultimately show ?thesis
            using 4 by (simp add: undone_def)
        qed
      qed
      with d' keys step all a show ?thesis
        by auto
    next
      case nall: False
      with IH a2 obtain k' r where "k' \<in> set ks" "top_record d2 k' = Some r"
        "t_class r \<noteq> ''SpatialPadd''" "undo_pad crop ks d2 = Inl (expected_padd (t_class r))"
        by auto
      then show ?thesis
        using pres [of k'] step nall a by auto
    qed
  qed
qed

lemma get_batch_all:
  "(\<And>i. i \<in> set idxs \<Longrightarrow> getitem crop inverse_fn ds i = Inr (f i)) \<Longrightarrow>
     get_batch crop inverse_fn ds idxs = Inr (map f idxs)"
  by (induction idxs) (simp_all add: bind_err_def)

lemma get_batch_first_error:
  assumes "\<And>j. j \<in> set pre \<Longrightarrow> \<not> isl (getitem crop inverse_fn ds j)"
    and "getitem crop inverse_fn ds i = Inl e"
  shows "get_batch crop inverse_fn ds (pre @ i # post) = Inl e"
  using assms
proof (induction pre)
  case Nil
  then show ?case by (simp add: bind_err_def)
next
  case (Cons j pre)
  have "\<not> isl (getitem crop inverse_fn ds j)"
    using Cons.prems(1) by simp
  then obtain x where "getitem crop inverse_fn ds j = Inr x"
    by (cases "getitem crop inverse_fn ds j") simp_all
  with Cons show ?case
    by (simp add: bind_err_def)
qed

lemma upt_split: "i < n \<Longrightarrow> [0..<n] = [0..<i] @ i # [Suc i..<n]"
  by (metis le0 upt_add_eq_append upt_conv_Cons less_imp_add_positive add.commute
      le_add1 less_iff_Suc_add upt_rec)


lemma getitem_no_pad:
  "index < length (ds_data self) \<Longrightarrow> \<not> ds_pad_collation_used self \<Longrightarrow>
     getitem crop inverse_fn self index = inverse_fn (ds_data self ! index) (ds_keys self)"
  by (simp add: getitem_def bind_err_def)

lemma getitem_pad:
  "index < length (ds_data self) \<Longrightarrow> ds_pad_collation_used self \<Longrightarrow>
     getitem crop inverse_fn self index =
       bind_err (undo_pad crop (case ds_keys self of Some ks \<Rightarrow> ks
                                | None \<Rightarrow> default_keys (ds_data self ! index))
                   (ds_data self ! index))
         (\<lambda>data1. inverse_fn data1 (ds_keys self))"
  by (simp add: getitem_def Let_def)

text \<open>
  Claim C1. \<open>__call__\<close> decollates the batch and reads the items of the first batch in
  order. When the loader's collate function is not \<open>pad_list_data_collate\<close>, every item
  is passed to the inverse of the wrapped transform as it is. When it is, then for an
  item whose inverted keys (the given keys, or the keys that have a list of records) all
  have a most recent record, an entry and a crop that succeeds: if every most recent
  record has the class \<open>SpatialPadd\<close>, the inverse is applied to the item in which each
  key is center-cropped to the original size of its popped record; otherwise
  \<open>RuntimeError\<close> is raised, naming the class found. The results of the items are
  collated, and the first exception of an item is raised by \<open>__call__\<close>.
\<close>

theorem batch_inverse_transform_call:
  assumes inv: "inv_ds = BatchInverseDataset_init decollate data keys
                           (bit_pad_collation_used (BatchInverseTransform_init l))"
    and n: "n = min (batch_size l) (length (decollate data))"
  shows "ds_data inv_ds = decollate data \<and>
         ds_pad_collation_used inv_ds = (collate_fn l = PadListDataCollate) \<and>
         (\<forall>i < length (decollate data). collate_fn l \<noteq> PadListDataCollate \<longrightarrow>
            getitem crop inverse_fn inv_ds i = inverse_fn (decollate data ! i) (ds_keys inv_ds)) \<and>
         (\<forall>i < length (decollate data). \<forall>ks.
            collate_fn l = PadListDataCollate \<and>
            ks = (case ds_keys inv_ds of Some ks' \<Rightarrow> ks' | None \<Rightarrow> default_keys (decollate data ! i)) \<and>
            distinct ks \<and> set ks \<inter> transforms_key ` set ks = {} \<and>
            undoable crop ks (decollate data ! i) \<longrightarrow>
            (if all_spatial_padd ks (decollate data ! i)
             then \<exists>d'. getitem crop inverse_fn inv_ds i = inverse_fn d' (ds_keys inv_ds) \<and>
                       map fst d' = map fst (decollate data ! i) \<and>
                       (\<forall>x. map_of d' x = undone crop ks (decollate data ! i) x)
             else \<exists>k r. k \<in> set ks \<and> top_record (decollate data ! i) k = Some r \<and>
                        t_class r \<noteq> ''SpatialPadd'' \<and>
                        getitem crop inverse_fn inv_ds i = Inl (expected_padd (t_class r)))) \<and>
         (0 < n \<and> (\<forall>i < n. getitem crop inverse_fn inv_ds i = Inr (f i)) \<longrightarrow>
            BatchInverseTransform_call crop inverse_fn decollate collate
              (BatchInverseTransform_init l) data keys =
              (case collate (map f [0..<n]) of
                 Inl e \<Rightarrow> Inl (add_hint e)
               | Inr b \<Rightarrow> Inr (Some b))) \<and>
         (\<forall>i < n. \<forall>e. (\<forall>j < i. \<not> isl (getitem crop inverse_fn inv_ds j)) \<and>
            getitem crop inverse_fn inv_ds i = Inl e \<longrightarrow>
            BatchInverseTransform_call crop inverse_fn decollate collate
              (BatchInverseTransform_init l) data keys = Inl (add_hint e))"
proof (intro conjI allI impI)
  show dd: "ds_data inv_ds = decollate data"
    by (simp add: inv BatchInverseDataset_init_def)
  show pp: "ds_pad_collation_used inv_ds = (collate_fn l = PadListDataCollate)"
    by (simp add: inv BatchInverseDataset_init_def BatchInverseTransform_init_def)
  have n': "min (bit_batch_size (BatchInverseTransform_init l)) (length (ds_data inv_ds)) = n"
    by (simp add: n dd BatchInverseTransform_init_def)
  have call: "BatchInverseTransform_call crop inverse_fn decollate collate
                (BatchInverseTransform_init l) data keys =
              (if n = 0 then Inr None
               else (case bind_err (get_batch crop inverse_fn inv_ds [0..<n]) collate of
                       Inl e \<Rightarrow> Inl (add_hint e)
                     | Inr b \<Rightarrow> Inr (Some b)))"
    unfolding BatchInverseTransform_call_def Let_def inv [symmetric] n' by (rule refl)
  {
    fix i
    assume "i < length (decollate data)" and "collate_fn l \<noteq> PadListDataCollate"
    then show "getitem crop inverse_fn inv_ds i = inverse_fn (decollate data ! i) (ds_keys inv_ds)"
      using getitem_no_pad [of i inv_ds crop inverse_fn] by (simp add: dd pp)
  }
  {
    fix i ks
    let ?d = "decollate data ! i"
    assume i: "i < length (decollate data)"
      and h: "collate_fn l = PadListDataCollate \<and>
        ks = (case ds_keys inv_ds of Some ks' \<Rightarrow> ks' | None \<Rightarrow> default_keys ?d) \<and>
        distinct ks \<and> set ks \<inter> transforms_key ` set ks = {} \<and> undoable crop ks ?d"
    have g: "getitem crop inverse_fn inv_ds i =
               bind_err (undo_pad crop ks ?d) (\<lambda>data1. inverse_fn data1 (ds_keys inv_ds))"
      using getitem_pad [of i inv_ds crop inverse_fn] i h
      by (simp add: dd pp cong: option.case_cong)
    from h have "distinct ks" "set ks \<inter> transforms_key ` set ks = {}" "undoable crop ks ?d"
      by blast+
    note U = undo_pad_spec [OF this]
    show "if all_spatial_padd ks ?d
          then \<exists>d'. getitem crop inverse_fn inv_ds i = inverse_fn d' (ds_keys inv_ds) \<and>
                    map fst d' = map fst ?d \<and> (\<forall>x. map_of d' x = undone crop ks ?d x)
          else \<exists>k r. k \<in> set ks \<and> top_record ?d k = Some r \<and> t_class r \<noteq> ''SpatialPadd'' \<and>
                     getitem crop inverse_fn inv_ds i = Inl (expected_padd (t_class r))"
    proof (cases "all_spatial_padd ks ?d")
      case True
      with U obtain d' where "undo_pad crop ks ?d = Inr d'" "map fst d' = map fst ?d"
        "\<forall>x. map_of d' x = undone crop ks ?d x"
        by auto
      with True show ?thesis
        by (auto simp: g bind_err_def)
    next
      case False
      with U obtain k r where "k \<in> set ks" "top_record ?d k = Some r"
        "t_class r \<noteq> ''SpatialPadd''" "undo_pad crop ks ?d = Inl (expected_padd (t_class r))"
        by auto
      with False show ?thesis
        by (auto simp: g bind_err_def)
    qed
  }
  {
    assume h: "0 < n \<and> (\<forall>i < n. getitem crop inverse_fn inv_ds i = Inr (f i))"
    then have "get_batch crop inverse_fn inv_ds [0..<n] = Inr (map f [0..<n])"
      by (intro get_batch_all) simp
    with h show "BatchInverseTransform_call crop inverse_fn decollate collate
                   (BatchInverseTransform_init l) data keys =
                 (case collate (map f [0..<n]) of
                    Inl e \<Rightarrow> Inl (add_hint e)
                  | Inr b \<Rightarrow> Inr (Some b))"
      by (simp add: call bind_err_def)
  }
  {
    fix i e
    assume i: "i < n"
      and h: "(\<forall>j < i. \<not> isl (getitem crop inverse_fn inv_ds j)) \<and>
              getitem crop inverse_fn inv_ds i = Inl e"
    have "get_batch crop inverse_fn inv_ds ([0..<i] @ i # [Suc i..<n]) = Inl e"
      using h by (intro get_batch_first_error) simp_all
    then have "get_batch crop inverse_fn inv_ds [0..<n] = Inl e"
      using upt_split [OF i] by simp
    with i show "BatchInverseTransform_call crop inverse_fn decollate collate
                   (BatchInverseTransform_init l) data keys = Inl (add_hint e)"
      by (simp add: call bind_err_def)
  }
qed

lemma example_items:
  "default_keys padded_item = [''image'']"
  "default_keys flipped_item = [''image'']"
  "undoable example_crop [''image''] padded_item"
  "undoable example_crop [''image''] flipped_item"
  "all_spatial_padd [''image''] padded_item"
  "\<not> all_spatial_padd [''image''] flipped_item"
  "top_record flipped_item ''image'' = Some \<lparr>t_class = ''Flipd'', orig_size = [4, 4]\<rparr>"
  "undone example_crop [''image''] padded_item ''image'' = Some (Value 6)"
  "undone example_crop [''image''] padded_item ''image_transforms'' =
     Some (Transforms [\<lparr>t_class = ''Flipd'', orig_size = [4, 4]\<rparr>])"
  by (simp_all add: default_keys_def padded_item_def flipped_item_def transforms_key_def
      undoable_def cropped_def top_record_def example_crop_def all_spatial_padd_def undone_def)

lemma example_getitem:
  "getitem example_crop example_inverse
     (BatchInverseDataset_init (\<lambda>b. b) [padded_item] None True) 0 =
     Inr [(''image'', Value 6),
          (''image_transforms'', Transforms [\<lparr>t_class = ''Flipd'', orig_size = [4, 4]\<rparr>])]"
  by code_simp

lemma no_hint: "add_hint (expected_padd ''Flipd'') = expected_padd ''Flipd''"
  by (simp add: add_hint_def expected_padd_def)


lemma pad_loader_simps:
  "bit_pad_collation_used (BatchInverseTransform_init pad_loader) = True"
  "collate_fn pad_loader = PadListDataCollate"
  "batch_size pad_loader = 2"
  by (simp_all add: BatchInverseTransform_init_def pad_loader_def)

lemma init_simps:
  "ds_keys (BatchInverseDataset_init decollate data None p) = None"
  "ds_data (BatchInverseDataset_init decollate data keys p) = decollate data"
  by (simp_all add: BatchInverseDataset_init_def)

theorem batch_inverse_transform_call_witness:
  "undoable example_crop [''image''] padded_item \<and>
   all_spatial_padd [''image''] padded_item \<and>
   (\<exists>d'. getitem example_crop example_inverse
            (BatchInverseDataset_init (\<lambda>b. b) [padded_item] None True) 0 =
            example_inverse d' None \<and>
          map_of d' ''image'' = Some (Value 6) \<and>
          map_of d' ''image_transforms'' =
            Some (Transforms [\<lparr>t_class = ''Flipd'', orig_size = [4, 4]\<rparr>])) \<and>
   BatchInverseTransform_call example_crop example_inverse (\<lambda>b. b) Inr
     (BatchInverseTransform_init pad_loader) [padded_item] None =
     Inr (Some [[(''image'', Value 6),
                 (''image_transforms'', Transforms [\<lparr>t_class = ''Flipd'', orig_size = [4, 4]\<rparr>])]]) \<and>
   BatchInverseTransform_call example_crop example_inverse (\<lambda>b. b) Inr
     (BatchInverseTransform_init pad_loader) [flipped_item] None =
     Inl (expected_padd ''Flipd'')"
proof -
  let ?res = "[(''image'', Value 6),
               (''image_transforms'', Transforms [\<lparr>t_class = ''Flipd'', orig_size = [4, 4]\<rparr>])]"
  note P = batch_inverse_transform_call [OF refl refl, where decollate = "\<lambda>b. b"
      and data = "[padded_item]" and keys = None and l = pad_loader and crop = example_crop
      and inverse_fn = example_inverse and collate = Inr and f = "\<lambda>i. ?res"]
  note F = batch_inverse_transform_call [OF refl refl, where decollate = "\<lambda>b. b"
      and data = "[flipped_item]" and keys = None and l = pad_loader and crop = example_crop
      and inverse_fn = example_inverse and collate = Inr and f = "\<lambda>i. ?res"]
  have disj: "set [''image''] \<inter> transforms_key ` set [''image''] = {}"
    by (simp add: transforms_key_def)
  have "\<exists>d'. getitem example_crop example_inverse
            (BatchInverseDataset_init (\<lambda>b. b) [padded_item] None True) 0 =
            example_inverse d' None \<and>
          map fst d' = map fst padded_item \<and>
          (\<forall>x. map_of d' x = undone example_crop [''image''] padded_item x)"
    using P [THEN conjunct2, THEN conjunct2, THEN conjunct2, THEN conjunct1, rule_format,
        of 0 "[''image'']"] disj
    by (simp add: pad_loader_simps init_simps example_items)
  then obtain d' where d': "getitem example_crop example_inverse
            (BatchInverseDataset_init (\<lambda>b. b) [padded_item] None True) 0 =
            example_inverse d' None"
    "\<forall>x. map_of d' x = undone example_crop [''image''] padded_item x"
    by blast
  have "map_of d' ''image'' = Some (Value 6)"
    "map_of d' ''image_transforms'' =
       Some (Transforms [\<lparr>t_class = ''Flipd'', orig_size = [4, 4]\<rparr>])"
    using d'(2) by (simp_all only: example_items)
  with d'(1) have b: "\<exists>d'. getitem example_crop example_inverse
            (BatchInverseDataset_init (\<lambda>b. b) [padded_item] None True) 0 =
            example_inverse d' None \<and>
          map_of d' ''image'' = Some (Value 6) \<and>
          map_of d' ''image_transforms'' =
            Some (Transforms [\<lparr>t_class = ''Flipd'', orig_size = [4, 4]\<rparr>])"
    by blast
  have c: "BatchInverseTransform_call example_crop example_inverse (\<lambda>b. b) Inr
     (BatchInverseTransform_init pad_loader) [padded_item] None = Inr (Some [?res])"
    using P [THEN conjunct2, THEN conjunct2, THEN conjunct2, THEN conjunct2, THEN conjunct1]
      example_getitem
    by (simp add: pad_loader_simps)
  have "\<exists>k r. k \<in> set [''image''] \<and> top_record flipped_item k = Some r \<and>
          t_class r \<noteq> ''SpatialPadd'' \<and>
          getitem example_crop example_inverse
            (BatchInverseDataset_init (\<lambda>b. b) [flipped_item] None True) 0 =
            Inl (expected_padd (t_class r))"
    using F [THEN conjunct2, THEN conjunct2, THEN conjunct2, THEN conjunct1, rule_format,
        of 0 "[''image'']"] disj
    by (simp add: pad_loader_simps init_simps example_items)
  then have g: "getitem example_crop example_inverse
            (BatchInverseDataset_init (\<lambda>b. b) [flipped_item] None True) 0 =
            Inl (expected_padd ''Flipd'')"
    by (auto simp: example_items)
  have d: "BatchInverseTransform_call example_crop example_inverse (\<lambda>b. b) Inr
     (BatchInverseTransform_init pad_loader) [flipped_item] None = Inl (expected_padd ''Flipd'')"
    using F [THEN conjunct2, THEN conjunct2, THEN conjunct2, THEN conjunct2, THEN conjunct2,
        rule_format, of 0 "expected_padd ''Flipd''"] g
    by (simp add: pad_loader_simps no_hint)
  from b c d show ?thesis
    by (simp add: example_items)
qed


end
